theory Spec2Isabelle
  imports Complex_Main "HOL-Library.Sublist" "HOL-Library.Word"
begin

section \<open>Python string operations used by \<open>majerus/parser.py\<close>\<close>

text \<open>
  Names are modelled as \<^typ>\<open>string\<close> holding ASCII text. On ASCII,
  \<open>unicodedata.normalize("NFKD", s)\<close> is the identity, \<open>str.lower\<close> maps \<open>A..Z\<close> to
  \<open>a..z\<close>, and the characters \<open>str.isspace\<close> accepts are the codes 9..13 and 28..32.
  Every key and value of the two alias tables is ASCII.
\<close>

definition whitespace :: "char list" where
  "whitespace =
     [CHR 0x09, CHR 0x0A, CHR 0x0B, CHR 0x0C, CHR 0x0D, CHR 0x1C, CHR 0x1D, CHR 0x1E, CHR 0x1F,
      CHR '' '']"

definition isspace :: "char \<Rightarrow> bool" where
  "isspace c = (c \<in> set whitespace)"

definition lower_char :: "char \<Rightarrow> char" where
  "lower_char c =
     (case map_of (zip ''ABCDEFGHIJKLMNOPQRSTUVWXYZ'' ''abcdefghijklmnopqrstuvwxyz'') c of
        Some d \<Rightarrow> d
      | None \<Rightarrow> c)"

definition lower :: "string \<Rightarrow> string" where
  "lower s = map lower_char s"

definition strip :: "string \<Rightarrow> string" where
  "strip s = rev (dropWhile isspace (rev (dropWhile isspace s)))"

text \<open>\<open>s.split(sep)\<close> for a one-character separator: empty fields are kept.\<close>

fun split_on :: "(char \<Rightarrow> bool) \<Rightarrow> string \<Rightarrow> string list" where
  "split_on p [] = [[]]"
| "split_on p (c # cs) =
     (if p c then [] # split_on p cs
      else (case split_on p cs of [] \<Rightarrow> [[c]] | w # ws \<Rightarrow> (c # w) # ws))"

text \<open>\<open>s.split()\<close>: fields between runs of whitespace, no empty field.\<close>

definition split_ws :: "string \<Rightarrow> string list" where
  "split_ws s = filter (\<lambda>w. w \<noteq> []) (split_on isspace s)"

text \<open>\<open>sub in s\<close> on strings.\<close>

fun contains :: "string \<Rightarrow> string \<Rightarrow> bool" where
  "contains sub [] = (sub = [])"
| "contains sub (c # cs) = (prefix sub (c # cs) \<or> contains sub cs)"

text \<open>
  \<open>s.replace(old, new)\<close>: every non-overlapping occurrence of \<open>old\<close>, found from the
  left. The source only calls it with a non-empty \<open>old\<close>; for an empty \<open>old\<close> Python
  inserts \<open>new\<close> before every character and at the end, which the equations follow too.
\<close>

function replace :: "string \<Rightarrow> string \<Rightarrow> string \<Rightarrow> string" where
  "replace old new [] = (if old = [] then new else [])"
| "replace old new (c # cs) =
     (if old \<noteq> [] \<and> prefix old (c # cs)
      then new @ replace old new (drop (length old) (c # cs))
      else if old = [] then new @ c # replace old new cs
      else c # replace old new cs)"
  by pat_completeness auto
termination
  by (relation "measure (\<lambda>(old, new, s). length s)") (auto simp: neq_Nil_conv)

text \<open>\<open>sep.join(ws)\<close>.\<close>

fun join :: "string \<Rightarrow> string list \<Rightarrow> string" where
  "join sep [] = []"
| "join sep [w] = w"
| "join sep (w # ws) = w @ sep @ join sep ws"

section \<open>The alias tables of \<open>majerus/parser.py\<close>\<close>

text \<open>
  \<open>__team_names\<close> (lines 26 to 447) and \<open>__conf_name\<close> (lines 451 to 552), entry by
  entry in the order of the source. A Python dictionary literal keeps the last value of a
  repeated key and \<^const>\<open>map_of\<close> the first; the only repeated key,
  \<open>california-baptist\<close>, carries the same value both times.
\<close>

definition team_names :: "(string \<times> string) list" where
  "team_names =
    [(''abilene-christian'', ''abilene-christian''),
     (''air-force'', ''air-force''),
     (''akron'', ''akron''),
     (''alabama-am'', ''alabama-am''),
     (''alabama-birmingham'', ''alabama-birmingham''),
     (''uab'', ''alabama-birmingham''),
     (''alabama-state'', ''alabama-state''),
     (''alabama'', ''alabama''),
     (''albany-ny'', ''albany-ny''),
     (''albany'', ''albany-ny''),
     (''alcorn-state'', ''alcorn-state''),
     (''american'', ''american''),
     (''appalachian-state'', ''appalachian-state''),
     (''arizona-state'', ''arizona-state''),
     (''arizona'', ''arizona''),
     (''little-rock'', ''arkansas-little-rock''),
     (''arkansas-little-rock'', ''arkansas-little-rock''),
     (''arkansas-pine-bluff'', ''arkansas-pine-bluff''),
     (''arkansas-state'', ''arkansas-state''),
     (''arkansas'', ''arkansas''),
     (''army'', ''army''),
     (''auburn'', ''auburn''),
     (''austin-peay'', ''austin-peay''),
     (''ball-state'', ''ball-state''),
     (''baylor'', ''baylor''),
     (''belmont'', ''belmont''),
     (''bethune-cookman'', ''bethune-cookman''),
     (''binghamton'', ''binghamton''),
     (''boise-state'', ''boise-state''),
     (''boston-college'', ''boston-college''),
     (''boston-university'', ''boston-university''),
     (''bowling-green-state'', ''bowling-green-state''),
     (''bowling-green'', ''bowling-green-state''),
     (''bradley'', ''bradley''),
     (''byu'', ''brigham-young''),
     (''brigham-young'', ''brigham-young''),
     (''brown'', ''brown''),
     (''bryant'', ''bryant''),
     (''bucknell'', ''bucknell''),
     (''buffalo'', ''buffalo''),
     (''butler'', ''butler''),
     (''california-baptist'', ''california-baptist''),
     (''cal-baptist'', ''california-baptist''),
     (''cal-poly'', ''cal-poly''),
     (''cal-state-bakersfield'', ''cal-state-bakersfield''),
     (''cal-st-bakersfield'', ''cal-state-bakersfield''),
     (''cal-state-fullerton'', ''cal-state-fullerton''),
     (''cal-st-fullerton'', ''cal-state-fullerton''),
     (''cal-state-northridge'', ''cal-state-northridge''),
     (''cal-st-northridge'', ''cal-state-northridge''),
     (''cal-state-long-beach'', ''long-beach-state''),
     (''california-baptist'', ''california-baptist''),
     (''california-davis'', ''california-davis''),
     (''california-irvine'', ''california-irvine''),
     (''california-riverside'', ''california-riverside''),
     (''california-santa-barbara'', ''california-santa-barbara''),
     (''university-of-california'', ''california''),
     (''california'', ''california''),
     (''campbell'', ''campbell''),
     (''canisius'', ''canisius''),
     (''centenary'', ''centenary-la''),
     (''centenary (la)'', ''centenary-la''),
     (''centenary-la'', ''centenary-la''),
     (''central-arkansas'', ''central-arkansas''),
     (''central-connecticut-state'', ''central-connecticut-state''),
     (''central-connecticut'', ''central-connecticut-state''),
     (''central-florida'', ''central-florida''),
     (''ucf'', ''central-florida''),
     (''central-michigan'', ''central-michigan''),
     (''charleston-southern'', ''charleston-southern''),
     (''charlotte'', ''charlotte''),
     (''chattanooga'', ''chattanooga''),
     (''chicago-state'', ''chicago-state''),
     (''cincinnati'', ''cincinnati''),
     (''citadel'', ''citadel''),
     (''the-citadel'', ''citadel''),
     (''clemson'', ''clemson''),
     (''cleveland-state'', ''cleveland-state''),
     (''coastal-carolina'', ''coastal-carolina''),
     (''colgate'', ''colgate''),
     (''charleston'', ''college-of-charleston''),
     (''college-of-charleston'', ''college-of-charleston''),
     (''colorado-state'', ''colorado-state''),
     (''colorado'', ''colorado''),
     (''columbia'', ''columbia''),
     (''connecticut'', ''connecticut''),
     (''coppin-state'', ''coppin-state''),
     (''cornell'', ''cornell''),
     (''creighton'', ''creighton''),
     (''dartmouth'', ''dartmouth''),
     (''davidson'', ''davidson''),
     (''dayton'', ''dayton''),
     (''delaware-state'', ''delaware-state''),
     (''delaware'', ''delaware''),
     (''denver'', ''denver''),
     (''depaul'', ''depaul''),
     (''detroit-mercy'', ''detroit-mercy''),
     (''detroit'', ''detroit-mercy''),
     (''drake'', ''drake''),
     (''drexel'', ''drexel''),
     (''duke'', ''duke''),
     (''duquesne'', ''duquesne''),
     (''east-carolina'', ''east-carolina''),
     (''east-tennessee-state'', ''east-tennessee-state''),
     (''etsu'', ''east-tennessee-state''),
     (''eastern-illinois'', ''eastern-illinois''),
     (''eastern-kentucky'', ''eastern-kentucky''),
     (''eastern-michigan'', ''eastern-michigan''),
     (''eastern-washington'', ''eastern-washington''),
     (''elon'', ''elon''),
     (''evansville'', ''evansville''),
     (''fairfield'', ''fairfield''),
     (''fairleigh-dickinson'', ''fairleigh-dickinson''),
     (''florida-am'', ''florida-am''),
     (''florida-atlantic'', ''florida-atlantic''),
     (''fau'', ''florida-atlantic''),
     (''florida-gulf-coast'', ''florida-gulf-coast''),
     (''fgcu'', ''florida-gulf-coast''),
     (''florida-international'', ''florida-international''),
     (''fiu'', ''florida-international''),
     (''florida-state'', ''florida-state''),
     (''florida'', ''florida''),
     (''fordham'', ''fordham''),
     (''fresno-state'', ''fresno-state''),
     (''furman'', ''furman''),
     (''gardner-webb'', ''gardner-webb''),
     (''george-mason'', ''george-mason''),
     (''george-washington'', ''george-washington''),
     (''georgetown'', ''georgetown''),
     (''georgia-southern'', ''georgia-southern''),
     (''georgia-state'', ''georgia-state''),
     (''georgia-tech'', ''georgia-tech''),
     (''georgia'', ''georgia''),
     (''gonzaga'', ''gonzaga''),
     (''grambling-state'', ''grambling''),
     (''grambling'', ''grambling''),
     (''grand-canyon'', ''grand-canyon''),
     (''green-bay'', ''green-bay''),
     (''hampton'', ''hampton''),
     (''hartford'', ''hartford''),
     (''harvard'', ''harvard''),
     (''hawaii'', ''hawaii''),
     (''high-point'', ''high-point''),
     (''hofstra'', ''hofstra''),
     (''holy-cross'', ''holy-cross''),
     (''houston-baptist'', ''houston-baptist''),
     (''houston'', ''houston''),
     (''howard'', ''howard''),
     (''idaho-state'', ''idaho-state''),
     (''idaho'', ''idaho''),
     (''uic'', ''illinois-chicago''),
     (''illinois-chicago'', ''illinois-chicago''),
     (''illinois-state'', ''illinois-state''),
     (''illinois'', ''illinois''),
     (''incarnate-word'', ''incarnate-word''),
     (''indiana-state'', ''indiana-state''),
     (''indiana'', ''indiana''),
     (''iona'', ''iona''),
     (''iowa-state'', ''iowa-state''),
     (''iowa'', ''iowa''),
     (''purdue-fort-wayne'', ''ipfw''),
     (''fort-wayne'', ''ipfw''),
     (''ipfw'', ''ipfw''),
     (''iupui'', ''iupui''),
     (''jackson-state'', ''jackson-state''),
     (''jacksonville-state'', ''jacksonville-state''),
     (''jacksonville'', ''jacksonville''),
     (''james-madison'', ''james-madison''),
     (''kansas-state'', ''kansas-state''),
     (''kansas'', ''kansas''),
     (''kennesaw-state'', ''kennesaw-state''),
     (''kent-state'', ''kent-state''),
     (''kentucky'', ''kentucky''),
     (''la-salle'', ''la-salle''),
     (''lafayette'', ''lafayette''),
     (''lamar'', ''lamar''),
     (''lehigh'', ''lehigh''),
     (''liberty'', ''liberty''),
     (''lipscomb'', ''lipscomb''),
     (''long-beach-state'', ''long-beach-state''),
     (''long-island-university'', ''long-island-university''),
     (''liu'', ''long-island-university''),
     (''liu-brooklyn'', ''long-island-university''),
     (''longwood'', ''longwood''),
     (''louisiana'', ''louisiana-lafayette''),
     (''louisiana-lafayette'', ''louisiana-lafayette''),
     (''louisiana-monroe'', ''louisiana-monroe''),
     (''louisiana-state'', ''louisiana-state''),
     (''lsu'', ''louisiana-state''),
     (''louisiana-tech'', ''louisiana-tech''),
     (''louisville'', ''louisville''),
     (''loyola-il'', ''loyola-il''),
     (''loyola-chicago'', ''loyola-il''),
     (''loyola-marymount'', ''loyola-marymount''),
     (''loyola-md'', ''loyola-md''),
     (''maine'', ''maine''),
     (''manhattan'', ''manhattan''),
     (''marist'', ''marist''),
     (''marquette'', ''marquette''),
     (''marshall'', ''marshall''),
     (''maryland-baltimore-county'', ''maryland-baltimore-county''),
     (''umbc'', ''maryland-baltimore-county''),
     (''maryland-eastern-shore'', ''maryland-eastern-shore''),
     (''maryland'', ''maryland''),
     (''massachusetts-lowell'', ''massachusetts-lowell''),
     (''umass-lowell'', ''massachusetts-lowell''),
     (''massachusetts'', ''massachusetts''),
     (''umass'', ''massachusetts''),
     (''mcneese-state'', ''mcneese-state''),
     (''memphis'', ''memphis''),
     (''mercer'', ''mercer''),
     (''miami-fl'', ''miami-fl''),
     (''miami-oh'', ''miami-oh''),
     (''michigan-state'', ''michigan-state''),
     (''michigan'', ''michigan''),
     (''middle-tennessee'', ''middle-tennessee''),
     (''milwaukee'', ''milwaukee''),
     (''minnesota'', ''minnesota''),
     (''mississippi-state'', ''mississippi-state''),
     (''mississippi-valley-state'', ''mississippi-valley-state''),
     (''mississippi'', ''mississippi''),
     (''ole-miss'', ''mississippi''),
     (''missouri-kansas-city'', ''missouri-kansas-city''),
     (''umkc'', ''missouri-kansas-city''),
     (''missouri-state'', ''missouri-state''),
     (''missouri'', ''missouri''),
     (''monmouth'', ''monmouth''),
     (''montana-state'', ''montana-state''),
     (''montana'', ''montana''),
     (''morehead-state'', ''morehead-state''),
     (''morgan-state'', ''morgan-state''),
     (''mount-st-marys'', ''mount-st-marys''),
     (''murray-state'', ''murray-state''),
     (''navy'', ''navy''),
     (''omaha'', ''nebraska-omaha''),
     (''nebraska-omaha'', ''nebraska-omaha''),
     (''nebraska'', ''nebraska''),
     (''nevada-las-vegas'', ''nevada-las-vegas''),
     (''unlv'', ''nevada-las-vegas''),
     (''nevada'', ''nevada''),
     (''new-hampshire'', ''new-hampshire''),
     (''new-mexico-state'', ''new-mexico-state''),
     (''new-mexico'', ''new-mexico''),
     (''new-orleans'', ''new-orleans''),
     (''niagara'', ''niagara''),
     (''nicholls-state'', ''nicholls-state''),
     (''njit'', ''njit''),
     (''norfolk-state'', ''norfolk-state''),
     (''north-alabama'', ''north-alabama''),
     (''unc-asheville'', ''north-carolina-asheville''),
     (''north-carolina-asheville'', ''north-carolina-asheville''),
     (''north-carolina-at'', ''north-carolina-at''),
     (''north-carolina-central'', ''north-carolina-central''),
     (''north-carolina-greensboro'', ''north-carolina-greensboro''),
     (''unc-greensboro'', ''north-carolina-greensboro''),
     (''north-carolina-state'', ''north-carolina-state''),
     (''n.c.-state'', ''north-carolina-state''),
     (''nc-state'', ''north-carolina-state''),
     (''north-carolina-wilmington'', ''north-carolina-wilmington''),
     (''unc-wilmington'', ''north-carolina-wilmington''),
     (''north-carolina'', ''north-carolina''),
     (''unc'', ''north-carolina''),
     (''north-dakota-state'', ''north-dakota-state''),
     (''north-dakota'', ''north-dakota''),
     (''north-florida'', ''north-florida''),
     (''north-texas'', ''north-texas''),
     (''northeastern'', ''northeastern''),
     (''northern-arizona'', ''northern-arizona''),
     (''northern-colorado'', ''northern-colorado''),
     (''northern-illinois'', ''northern-illinois''),
     (''northern-iowa'', ''northern-iowa''),
     (''northern-kentucky'', ''northern-kentucky''),
     (''northwestern-state'', ''northwestern-state''),
     (''northwestern'', ''northwestern''),
     (''notre-dame'', ''notre-dame''),
     (''oakland'', ''oakland''),
     (''ohio-state'', ''ohio-state''),
     (''ohio'', ''ohio''),
     (''oklahoma-state'', ''oklahoma-state''),
     (''oklahoma'', ''oklahoma''),
     (''old-dominion'', ''old-dominion''),
     (''oral-roberts'', ''oral-roberts''),
     (''oregon-state'', ''oregon-state''),
     (''oregon'', ''oregon''),
     (''pacific'', ''pacific''),
     (''penn-state'', ''penn-state''),
     (''pennsylvania'', ''pennsylvania''),
     (''penn'', ''pennsylvania''),
     (''pepperdine'', ''pepperdine''),
     (''pittsburgh'', ''pittsburgh''),
     (''pitt'', ''pittsburgh''),
     (''portland-state'', ''portland-state''),
     (''portland'', ''portland''),
     (''prairie-view'', ''prairie-view''),
     (''prairie-view-am'', ''prairie-view''),
     (''presbyterian'', ''presbyterian''),
     (''princeton'', ''princeton''),
     (''providence'', ''providence''),
     (''purdue'', ''purdue''),
     (''quinnipiac'', ''quinnipiac''),
     (''radford'', ''radford''),
     (''rhode-island'', ''rhode-island''),
     (''rice'', ''rice''),
     (''richmond'', ''richmond''),
     (''rider'', ''rider''),
     (''robert-morris'', ''robert-morris''),
     (''rutgers'', ''rutgers''),
     (''sacramento-state'', ''sacramento-state''),
     (''sacred-heart'', ''sacred-heart''),
     (''saint-francis-pa'', ''saint-francis-pa''),
     (''saint-josephs'', ''saint-josephs''),
     (''st-josephs'', ''saint-josephs''),
     (''saint-louis'', ''saint-louis''),
     (''saint-marys-ca'', ''saint-marys-ca''),
     (''saint-marys'', ''saint-marys-ca''),
     (''saint-peters'', ''saint-peters''),
     (''sam-houston-state'', ''sam-houston-state''),
     (''samford'', ''samford''),
     (''san-diego-state'', ''san-diego-state''),
     (''san-diego'', ''san-diego''),
     (''san-francisco'', ''san-francisco''),
     (''san-jose-state'', ''san-jose-state''),
     (''santa-clara'', ''santa-clara''),
     (''savannah-state'', ''savannah-state''),
     (''seattle'', ''seattle''),
     (''seton-hall'', ''seton-hall''),
     (''siena'', ''siena''),
     (''south-alabama'', ''south-alabama''),
     (''south-carolina-state'', ''south-carolina-state''),
     (''south-carolina-upstate'', ''south-carolina-upstate''),
     (''usc-upstate'', ''south-carolina-upstate''),
     (''south-carolina'', ''south-carolina''),
     (''south-dakota-state'', ''south-dakota-state''),
     (''south-dakota'', ''south-dakota''),
     (''south-florida'', ''south-florida''),
     (''southeast-missouri-state'', ''southeast-missouri-state''),
     (''southeastern-louisiana'', ''southeastern-louisiana''),
     (''southern-california'', ''southern-california''),
     (''usc'', ''southern-california''),
     (''siu-edwardsville'', ''southern-illinois-edwardsville''),
     (''southern-illinois-edwardsville'', ''southern-illinois-edwardsville''),
     (''southern-illinois'', ''southern-illinois''),
     (''smu'', ''southern-methodist''),
     (''southern-methodist'', ''southern-methodist''),
     (''southern-miss'', ''southern-mississippi''),
     (''southern-mississippi'', ''southern-mississippi''),
     (''southern-utah'', ''southern-utah''),
     (''southern'', ''southern''),
     (''saint-bonaventure'', ''st-bonaventure''),
     (''st-bonaventure'', ''st-bonaventure''),
     (''st-francis-ny'', ''st-francis-ny''),
     (''saint-francis-ny'', ''st-francis-ny''),
     (''saint-johns'', ''st-johns-ny''),
     (''st-johns-ny'', ''st-johns-ny''),
     (''saint-johns-ny'', ''st-johns-ny''),
     (''stanford'', ''stanford''),
     (''stephen-f-austin'', ''stephen-f-austin''),
     (''stetson'', ''stetson''),
     (''stony-brook'', ''stony-brook''),
     (''syracuse'', ''syracuse''),
     (''temple'', ''temple''),
     (''tennessee-martin'', ''tennessee-martin''),
     (''tennessee-state'', ''tennessee-state''),
     (''tennessee-tech'', ''tennessee-tech''),
     (''tennessee'', ''tennessee''),
     (''texas-am-corpus-christi'', ''texas-am-corpus-christi''),
     (''texas-am-corpus-chris'', ''texas-am-corpus-christi''),
     (''texas-am'', ''texas-am''),
     (''ut-arlington'', ''texas-arlington''),
     (''texas-arlington'', ''texas-arlington''),
     (''tcu'', ''texas-christian''),
     (''texas-christian'', ''texas-christian''),
     (''texas-el-paso'', ''texas-el-paso''),
     (''utep'', ''texas-el-paso''),
     (''texas-rio-grande-valley'', ''texas-pan-american''),
     (''ut-rio-grande-valley'', ''texas-pan-american''),
     (''texas-pan-american'', ''texas-pan-american''),
     (''texas-san-antonio'', ''texas-san-antonio''),
     (''utsa'', ''texas-san-antonio''),
     (''texas-southern'', ''texas-southern''),
     (''texas-state'', ''texas-state''),
     (''texas-tech'', ''texas-tech''),
     (''texas'', ''texas''),
     (''toledo'', ''toledo''),
     (''towson'', ''towson''),
     (''troy'', ''troy''),
     (''tulane'', ''tulane''),
     (''tulsa'', ''tulsa''),
     (''ucla'', ''ucla''),
     (''utah-state'', ''utah-state''),
     (''utah-valley'', ''utah-valley''),
     (''utah'', ''utah''),
     (''valparaiso'', ''valparaiso''),
     (''vanderbilt'', ''vanderbilt''),
     (''vermont'', ''vermont''),
     (''villanova'', ''villanova''),
     (''virginia-commonwealth'', ''virginia-commonwealth''),
     (''vcu'', ''virginia-commonwealth''),
     (''vmi'', ''virginia-military-institute''),
     (''virginia-military-institute'', ''virginia-military-institute''),
     (''virginia-tech'', ''virginia-tech''),
     (''virginia'', ''virginia''),
     (''wagner'', ''wagner''),
     (''wake-forest'', ''wake-forest''),
     (''washington-state'', ''washington-state''),
     (''washington'', ''washington''),
     (''weber-state'', ''weber-state''),
     (''west-virginia'', ''west-virginia''),
     (''western-carolina'', ''western-carolina''),
     (''western-illinois'', ''western-illinois''),
     (''western-kentucky'', ''western-kentucky''),
     (''western-michigan'', ''western-michigan''),
     (''wichita-state'', ''wichita-state''),
     (''william-mary'', ''william-mary''),
     (''winthrop'', ''winthrop''),
     (''wisconsin'', ''wisconsin''),
     (''wofford'', ''wofford''),
     (''wright-state'', ''wright-state''),
     (''wyoming'', ''wyoming''),
     (''xavier'', ''xavier''),
     (''yale'', ''yale''),
     (''youngstown-state'', ''youngstown-state'')]"

definition conf_name :: "(string \<times> string) list" where
  "conf_name =
    [(''mid-eastern athletic conference'', ''meac''),
     (''meac'', ''meac''),
     (''mid-american conference'', ''mac''),
     (''mac'', ''mac''),
     (''mountain west conference'', ''mwc''),
     (''mwc'', ''mwc''),
     (''atlantic 10 conference'', ''atlantic-10''),
     (''a-10'', ''atlantic-10''),
     (''a10'', ''atlantic-10''),
     (''atlantic-10'', ''atlantic-10''),
     (''missouri valley conference'', ''mvc''),
     (''mvc'', ''mvc''),
     (''southern conference'', ''southern''),
     (''sc'', ''southern''),
     (''southern'', ''southern''),
     (''ivy group'', ''ivy''),
     (''ivy'', ''ivy''),
     (''sun belt conference'', ''sun-belt''),
     (''sun belt'', ''sun-belt''),
     (''sb'', ''sun-belt''),
     (''sun-belt'', ''sun-belt''),
     (''conference usa'', ''cusa''),
     (''cusa'', ''cusa''),
     (''western athletic conference'', ''wac''),
     (''wac'', ''wac''),
     (''horizon league'', ''horizon''),
     (''horizon'', ''horizon''),
     (''horz'', ''horizon''),
     (''colonial athletic association'', ''colonial''),
     (''caa'', ''colonial''),
     (''colonial'', ''colonial''),
     (''big west conference'', ''big-west''),
     (''bw'', ''big-west''),
     (''big west'', ''big-west''),
     (''big-west'', ''big-west''),
     (''atlantic sun conference'', ''atlantic-sun''),
     (''a-sun'', ''atlantic-sun''),
     (''asun'', ''atlantic-sun''),
     (''atlantic-sun'', ''atlantic-sun''),
     (''summit league'', ''summit''),
     (''summit'', ''summit''),
     (''sum'', ''summit''),
     (''patriot league'', ''patriot''),
     (''patriot'', ''patriot''),
     (''pat'', ''patriot''),
     (''ohio valley conference'', ''ovc''),
     (''ovc'', ''ovc''),
     (''big south conference'', ''big-south''),
     (''big south'', ''big-south''),
     (''big-south'', ''big-south''),
     (''bsth'', ''big-south''),
     (''america east conference'', ''america-east''),
     (''aec'', ''america-east''),
     (''ae'', ''america-east''),
     (''america-east'', ''america-east''),
     (''big sky conference'', ''big-sky''),
     (''big sky'', ''big-sky''),
     (''big-sky'', ''big-sky''),
     (''bsky'', ''big-sky''),
     (''metro atlantic athletic conference'', ''maac''),
     (''maac'', ''maac''),
     (''southland conference'', ''southland''),
     (''southland'', ''southland''),
     (''slnd'', ''southland''),
     (''northeast conference'', ''northeast''),
     (''nec'', ''northeast''),
     (''northeast'', ''northeast''),
     (''southwest athletic conference'', ''swac''),
     (''swac'', ''swac''),
     (''big ten conference'', ''big-ten''),
     (''big ten'', ''big-ten''),
     (''b10'', ''big-ten''),
     (''big-ten'', ''big-ten''),
     (''big 12 conference'', ''big-12''),
     (''b12'', ''big-12''),
     (''big 12'', ''big-12''),
     (''big-12'', ''big-12''),
     (''atlantic coast conference'', ''acc''),
     (''acc'', ''acc''),
     (''southeastern conference'', ''sec''),
     (''sec'', ''sec''),
     (''big east conference'', ''big-east''),
     (''be'', ''big-east''),
     (''big east'', ''big-east''),
     (''big-east'', ''big-east''),
     (''pacific-12 conference'', ''pac-12''),
     (''pac 12'', ''pac-12''),
     (''p12'', ''pac-12''),
     (''pac-12'', ''pac-12''),
     (''pacific-10 conference'', ''pac-10''),
     (''pac 10'', ''pac-10''),
     (''pac-10'', ''pac-10''),
     (''p10'', ''pac-10''),
     (''american athletic conference'', ''aac''),
     (''amer'', ''aac''),
     (''aac'', ''aac''),
     (''west coast conference'', ''wcc''),
     (''wcc'', ''wcc''),
     (''great west conference'', ''great-west''),
     (''great-west'', ''great-west''),
     (''gwc'', ''great-west''),
     (''ind'', ''ind'')]"

section \<open>Errors and results\<close>

datatype error =
    KeyError string
  | NameError string
  | IndexError

text \<open>
  \<open>name_normalizer\<close> returns the parsed name, the tournament flag, or the pair of them;
  the parsed name is a canonical identifier or the float \<open>np.nan\<close>.
\<close>

datatype name_val = Canon string | NaN

datatype norm_result =
    RName name_val
  | RFlag int
  | RBoth name_val int

section \<open>\<open>name_normalizer\<close>\<close>

text \<open>
  Lines 587 to 596: the special case for \<open>st.\<close>. \<open>tmp[0]\<close> raises \<open>IndexError\<close> on an
  empty list; \<open>tmp[-1]\<close> is only reached with a non-empty \<open>tmp\<close>.
\<close>

definition st_step :: "string \<Rightarrow> error + string" where
  "st_step parsed_team =
     (if contains ''st.'' parsed_team then
        (case split_ws parsed_team of
           [] \<Rightarrow> Inl IndexError
         | t0 # ts \<Rightarrow>
             if t0 = ''st.'' then Inr (replace ''st.'' ''saint'' parsed_team)
             else if last (t0 # ts) = ''st.'' then Inr (replace ''st.'' ''state'' parsed_team)
             else Inr parsed_team)
      else Inr parsed_team)"

text \<open>Lines 598 to 600: the loop over the junk characters \<open>& ( ) ' .\<close>\<close>

definition junk_chars :: "char list" where
  "junk_chars = [CHR ''&'', CHR ''('', CHR '')'', CHR 0x27, CHR ''.'']"

definition remove_junk :: "string \<Rightarrow> string" where
  "remove_junk parsed_team = fold (\<lambda>ch s. replace [ch] [] s) junk_chars parsed_team"

text \<open>Lines 602 to 612: hyphens to spaces, \<open>split(" ")\<close>, \<open>uc\<close> to \<open>california\<close>, no blanks.\<close>

definition tokens_of :: "string \<Rightarrow> string list" where
  "tokens_of parsed_team =
     filter (\<lambda>el. el \<noteq> [])
       (map (\<lambda>wd. if wd = ''uc'' then ''california'' else wd)
         (split_on (\<lambda>c. c = CHR '' '') (replace ''-'' '' '' (remove_junk parsed_team))))"

text \<open>Lines 614 to 620: the tournament flag and the lookup key.\<close>

definition key_of_tokens :: "string list \<Rightarrow> string \<times> int" where
  "key_of_tokens parsed_team =
     (if ''ncaa'' \<in> set parsed_team then (join ''-'' (butlast parsed_team), 1)
      else (join ''-'' parsed_team, 0))"

text \<open>Lines 585 to 620: from the raw name to the lookup key and the flag.\<close>

definition name_key :: "string \<Rightarrow> error + (string \<times> int)" where
  "name_key name =
     (case st_step (strip (lower name)) of
        Inl e \<Rightarrow> Inl e
      | Inr parsed_team \<Rightarrow> Inr (key_of_tokens (tokens_of parsed_team)))"

text \<open>Lines 633 to 640: what is returned.\<close>

definition select_result :: "bool \<Rightarrow> bool \<Rightarrow> name_val \<Rightarrow> int \<Rightarrow> norm_result" where
  "select_result made_tourney return_both parsed_team b_march_madness =
     (if return_both then RBoth parsed_team b_march_madness
      else if \<not> made_tourney then RName parsed_team
      else RFlag b_march_madness)"

definition team_err_msg :: "string \<Rightarrow> string" where
  "team_err_msg parsed_team =
     ''Incorrect team name: '' @ parsed_team @ ''. See this function'' @ [CHR 0x27] @
     ''s docs for valid names.''"

definition name_normalizer :: "string \<Rightarrow> bool \<Rightarrow> bool \<Rightarrow> bool \<Rightarrow> error + norm_result" where
  "name_normalizer name made_tourney return_both ignore_errors =
     (case name_key name of
        Inl e \<Rightarrow> Inl e
      | Inr (parsed_team, b_march_madness) \<Rightarrow>
          (case map_of team_names parsed_team of
             Some v \<Rightarrow> Inr (select_result made_tourney return_both (Canon v) b_march_madness)
           | None \<Rightarrow>
               if ignore_errors
               then Inr (select_result made_tourney return_both NaN b_march_madness)
               else Inl (KeyError (team_err_msg parsed_team))))"

section \<open>\<open>conf_name_normalizer\<close>\<close>

text \<open>
  Lines 667 to 671. The tests for the four qualifiers are substring tests, and the last
  field of \<open>split(" ")\<close> is dropped whatever it is.
\<close>

definition conf_key :: "string \<Rightarrow> string" where
  "conf_key name =
     (let parsed_conf = strip (lower name) in
      if contains ''(east)'' parsed_conf \<or> contains ''(west)'' parsed_conf \<or>
         contains ''(south)'' parsed_conf \<or> contains ''(north)'' parsed_conf
      then join ''-'' (butlast (split_on (\<lambda>c. c = CHR '' '') parsed_conf))
      else parsed_conf)"

text \<open>
  Line 681: the message is a plain string literal, not an f-string, so the braces and the
  variable name stay in it as written.
\<close>

definition conf_err_msg :: "string" where
  "conf_err_msg =
     ''Incorrect conference name: {parsed_conf}. See this function'' @ [CHR 0x27] @
     ''s docs for valid names.''"

definition conf_name_normalizer :: "string \<Rightarrow> bool \<Rightarrow> error + name_val" where
  "conf_name_normalizer name ignore_errors =
     (case map_of conf_name (conf_key name) of
        Some v \<Rightarrow> Inr (Canon v)
      | None \<Rightarrow> if ignore_errors then Inr NaN else Inl (KeyError conf_err_msg))"

section \<open>The team table in slices\<close>

text \<open>
  The same entries as \<^const>\<open>team_names\<close>, sixteen at a time and in the same order. They
  only serve to search the table in small steps; \<open>team_names_slices\<close> below proves that
  their concatenation is the table.
\<close>

definition tc_0 :: "(string \<times> string) list" where
  "tc_0 =
    [(''abilene-christian'', ''abilene-christian''),
     (''air-force'', ''air-force''),
     (''akron'', ''akron''),
     (''alabama-am'', ''alabama-am''),
     (''alabama-birmingham'', ''alabama-birmingham''),
     (''uab'', ''alabama-birmingham''),
     (''alabama-state'', ''alabama-state''),
     (''alabama'', ''alabama''),
     (''albany-ny'', ''albany-ny''),
     (''albany'', ''albany-ny''),
     (''alcorn-state'', ''alcorn-state''),
     (''american'', ''american''),
     (''appalachian-state'', ''appalachian-state''),
     (''arizona-state'', ''arizona-state''),
     (''arizona'', ''arizona''),
     (''little-rock'', ''arkansas-little-rock'')]"

definition tc_1 :: "(string \<times> string) list" where
  "tc_1 =
    [(''arkansas-little-rock'', ''arkansas-little-rock''),
     (''arkansas-pine-bluff'', ''arkansas-pine-bluff''),
     (''arkansas-state'', ''arkansas-state''),
     (''arkansas'', ''arkansas''),
     (''army'', ''army''),
     (''auburn'', ''auburn''),
     (''austin-peay'', ''austin-peay''),
     (''ball-state'', ''ball-state''),
     (''baylor'', ''baylor''),
     (''belmont'', ''belmont''),
     (''bethune-cookman'', ''bethune-cookman''),
     (''binghamton'', ''binghamton''),
     (''boise-state'', ''boise-state''),
     (''boston-college'', ''boston-college''),
     (''boston-university'', ''boston-university''),
     (''bowling-green-state'', ''bowling-green-state'')]"

definition tc_2 :: "(string \<times> string) list" where
  "tc_2 =
    [(''bowling-green'', ''bowling-green-state''),
     (''bradley'', ''bradley''),
     (''byu'', ''brigham-young''),
     (''brigham-young'', ''brigham-young''),
     (''brown'', ''brown''),
     (''bryant'', ''bryant''),
     (''bucknell'', ''bucknell''),
     (''buffalo'', ''buffalo''),
     (''butler'', ''butler''),
     (''california-baptist'', ''california-baptist''),
     (''cal-baptist'', ''california-baptist''),
     (''cal-poly'', ''cal-poly''),
     (''cal-state-bakersfield'', ''cal-state-bakersfield''),
     (''cal-st-bakersfield'', ''cal-state-bakersfield''),
     (''cal-state-fullerton'', ''cal-state-fullerton''),
     (''cal-st-fullerton'', ''cal-state-fullerton'')]"

definition tc_3 :: "(string \<times> string) list" where
  "tc_3 =
    [(''cal-state-northridge'', ''cal-state-northridge''),
     (''cal-st-northridge'', ''cal-state-northridge''),
     (''cal-state-long-beach'', ''long-beach-state''),
     (''california-baptist'', ''california-baptist''),
     (''california-davis'', ''california-davis''),
     (''california-irvine'', ''california-irvine''),
     (''california-riverside'', ''california-riverside''),
     (''california-santa-barbara'', ''california-santa-barbara''),
     (''university-of-california'', ''california''),
     (''california'', ''california''),
     (''campbell'', ''campbell''),
     (''canisius'', ''canisius''),
     (''centenary'', ''centenary-la''),
     (''centenary (la)'', ''centenary-la''),
     (''centenary-la'', ''centenary-la''),
     (''central-arkansas'', ''central-arkansas'')]"

definition tc_4 :: "(string \<times> string) list" where
  "tc_4 =
    [(''central-connecticut-state'', ''central-connecticut-state''),
     (''central-connecticut'', ''central-connecticut-state''),
     (''central-florida'', ''central-florida''),
     (''ucf'', ''central-florida''),
     (''central-michigan'', ''central-michigan''),
     (''charleston-southern'', ''charleston-southern''),
     (''charlotte'', ''charlotte''),
     (''chattanooga'', ''chattanooga''),
     (''chicago-state'', ''chicago-state''),
     (''cincinnati'', ''cincinnati''),
     (''citadel'', ''citadel''),
     (''the-citadel'', ''citadel''),
     (''clemson'', ''clemson''),
     (''cleveland-state'', ''cleveland-state''),
     (''coastal-carolina'', ''coastal-carolina''),
     (''colgate'', ''colgate'')]"

definition tc_5 :: "(string \<times> string) list" where
  "tc_5 =
    [(''charleston'', ''college-of-charleston''),
     (''college-of-charleston'', ''college-of-charleston''),
     (''colorado-state'', ''colorado-state''),
     (''colorado'', ''colorado''),
     (''columbia'', ''columbia''),
     (''connecticut'', ''connecticut''),
     (''coppin-state'', ''coppin-state''),
     (''cornell'', ''cornell''),
     (''creighton'', ''creighton''),
     (''dartmouth'', ''dartmouth''),
     (''davidson'', ''davidson''),
     (''dayton'', ''dayton''),
     (''delaware-state'', ''delaware-state''),
     (''delaware'', ''delaware''),
     (''denver'', ''denver''),
     (''depaul'', ''depaul'')]"

definition tc_6 :: "(string \<times> string) list" where
  "tc_6 =
    [(''detroit-mercy'', ''detroit-mercy''),
     (''detroit'', ''detroit-mercy''),
     (''drake'', ''drake''),
     (''drexel'', ''drexel''),
     (''duke'', ''duke''),
     (''duquesne'', ''duquesne''),
     (''east-carolina'', ''east-carolina''),
     (''east-tennessee-state'', ''east-tennessee-state''),
     (''etsu'', ''east-tennessee-state''),
     (''eastern-illinois'', ''eastern-illinois''),
     (''eastern-kentucky'', ''eastern-kentucky''),
     (''eastern-michigan'', ''eastern-michigan''),
     (''eastern-washington'', ''eastern-washington''),
     (''elon'', ''elon''),
     (''evansville'', ''evansville''),
     (''fairfield'', ''fairfield'')]"

definition tc_7 :: "(string \<times> string) list" where
  "tc_7 =
    [(''fairleigh-dickinson'', ''fairleigh-dickinson''),
     (''florida-am'', ''florida-am''),
     (''florida-atlantic'', ''florida-atlantic''),
     (''fau'', ''florida-atlantic''),
     (''florida-gulf-coast'', ''florida-gulf-coast''),
     (''fgcu'', ''florida-gulf-coast''),
     (''florida-international'', ''florida-international''),
     (''fiu'', ''florida-international''),
     (''florida-state'', ''florida-state''),
     (''florida'', ''florida''),
     (''fordham'', ''fordham''),
     (''fresno-state'', ''fresno-state''),
     (''furman'', ''furman''),
     (''gardner-webb'', ''gardner-webb''),
     (''george-mason'', ''george-mason''),
     (''george-washington'', ''george-washington'')]"

definition tc_8 :: "(string \<times> string) list" where
  "tc_8 =
    [(''georgetown'', ''georgetown''),
     (''georgia-southern'', ''georgia-southern''),
     (''georgia-state'', ''georgia-state''),
     (''georgia-tech'', ''georgia-tech''),
     (''georgia'', ''georgia''),
     (''gonzaga'', ''gonzaga''),
     (''grambling-state'', ''grambling''),
     (''grambling'', ''grambling''),
     (''grand-canyon'', ''grand-canyon''),
     (''green-bay'', ''green-bay''),
     (''hampton'', ''hampton''),
     (''hartford'', ''hartford''),
     (''harvard'', ''harvard''),
     (''hawaii'', ''hawaii''),
     (''high-point'', ''high-point''),
     (''hofstra'', ''hofstra'')]"

definition tc_9 :: "(string \<times> string) list" where
  "tc_9 =
    [(''holy-cross'', ''holy-cross''),
     (''houston-baptist'', ''houston-baptist''),
     (''houston'', ''houston''),
     (''howard'', ''howard''),
     (''idaho-state'', ''idaho-state''),
     (''idaho'', ''idaho''),
     (''uic'', ''illinois-chicago''),
     (''illinois-chicago'', ''illinois-chicago''),
     (''illinois-state'', ''illinois-state''),
     (''illinois'', ''illinois''),
     (''incarnate-word'', ''incarnate-word''),
     (''indiana-state'', ''indiana-state''),
     (''indiana'', ''indiana''),
     (''iona'', ''iona''),
     (''iowa-state'', ''iowa-state''),
     (''iowa'', ''iowa'')]"

definition tc_10 :: "(string \<times> string) list" where
  "tc_10 =
    [(''purdue-fort-wayne'', ''ipfw''),
     (''fort-wayne'', ''ipfw''),
     (''ipfw'', ''ipfw''),
     (''iupui'', ''iupui''),
     (''jackson-state'', ''jackson-state''),
     (''jacksonville-state'', ''jacksonville-state''),
     (''jacksonville'', ''jacksonville''),
     (''james-madison'', ''james-madison''),
     (''kansas-state'', ''kansas-state''),
     (''kansas'', ''kansas''),
     (''kennesaw-state'', ''kennesaw-state''),
     (''kent-state'', ''kent-state''),
     (''kentucky'', ''kentucky''),
     (''la-salle'', ''la-salle''),
     (''lafayette'', ''lafayette''),
     (''lamar'', ''lamar'')]"

definition tc_11 :: "(string \<times> string) list" where
  "tc_11 =
    [(''lehigh'', ''lehigh''),
     (''liberty'', ''liberty''),
     (''lipscomb'', ''lipscomb''),
     (''long-beach-state'', ''long-beach-state''),
     (''long-island-university'', ''long-island-university''),
     (''liu'', ''long-island-university''),
     (''liu-brooklyn'', ''long-island-university''),
     (''longwood'', ''longwood''),
     (''louisiana'', ''louisiana-lafayette''),
     (''louisiana-lafayette'', ''louisiana-lafayette''),
     (''louisiana-monroe'', ''louisiana-monroe''),
     (''louisiana-state'', ''louisiana-state''),
     (''lsu'', ''louisiana-state''),
     (''louisiana-tech'', ''louisiana-tech''),
     (''louisville'', ''louisville''),
     (''loyola-il'', ''loyola-il'')]"

definition tc_12 :: "(string \<times> string) list" where
  "tc_12 =
    [(''loyola-chicago'', ''loyola-il''),
     (''loyola-marymount'', ''loyola-marymount''),
     (''loyola-md'', ''loyola-md''),
     (''maine'', ''maine''),
     (''manhattan'', ''manhattan''),
     (''marist'', ''marist''),
     (''marquette'', ''marquette''),
     (''marshall'', ''marshall''),
     (''maryland-baltimore-county'', ''maryland-baltimore-county''),
     (''umbc'', ''maryland-baltimore-county''),
     (''maryland-eastern-shore'', ''maryland-eastern-shore''),
     (''maryland'', ''maryland''),
     (''massachusetts-lowell'', ''massachusetts-lowell''),
     (''umass-lowell'', ''massachusetts-lowell''),
     (''massachusetts'', ''massachusetts''),
     (''umass'', ''massachusetts'')]"

definition tc_13 :: "(string \<times> string) list" where
  "tc_13 =
    [(''mcneese-state'', ''mcneese-state''),
     (''memphis'', ''memphis''),
     (''mercer'', ''mercer''),
     (''miami-fl'', ''miami-fl''),
     (''miami-oh'', ''miami-oh''),
     (''michigan-state'', ''michigan-state''),
     (''michigan'', ''michigan''),
     (''middle-tennessee'', ''middle-tennessee''),
     (''milwaukee'', ''milwaukee''),
     (''minnesota'', ''minnesota''),
     (''mississippi-state'', ''mississippi-state''),
     (''mississippi-valley-state'', ''mississippi-valley-state''),
     (''mississippi'', ''mississippi''),
     (''ole-miss'', ''mississippi''),
     (''missouri-kansas-city'', ''missouri-kansas-city''),
     (''umkc'', ''missouri-kansas-city'')]"

definition tc_14 :: "(string \<times> string) list" where
  "tc_14 =
    [(''missouri-state'', ''missouri-state''),
     (''missouri'', ''missouri''),
     (''monmouth'', ''monmouth''),
     (''montana-state'', ''montana-state''),
     (''montana'', ''montana''),
     (''morehead-state'', ''morehead-state''),
     (''morgan-state'', ''morgan-state''),
     (''mount-st-marys'', ''mount-st-marys''),
     (''murray-state'', ''murray-state''),
     (''navy'', ''navy''),
     (''omaha'', ''nebraska-omaha''),
     (''nebraska-omaha'', ''nebraska-omaha''),
     (''nebraska'', ''nebraska''),
     (''nevada-las-vegas'', ''nevada-las-vegas''),
     (''unlv'', ''nevada-las-vegas''),
     (''nevada'', ''nevada'')]"

definition tc_15 :: "(string \<times> string) list" where
  "tc_15 =
    [(''new-hampshire'', ''new-hampshire''),
     (''new-mexico-state'', ''new-mexico-state''),
     (''new-mexico'', ''new-mexico''),
     (''new-orleans'', ''new-orleans''),
     (''niagara'', ''niagara''),
     (''nicholls-state'', ''nicholls-state''),
     (''njit'', ''njit''),
     (''norfolk-state'', ''norfolk-state''),
     (''north-alabama'', ''north-alabama''),
     (''unc-asheville'', ''north-carolina-asheville''),
     (''north-carolina-asheville'', ''north-carolina-asheville''),
     (''north-carolina-at'', ''north-carolina-at''),
     (''north-carolina-central'', ''north-carolina-central''),
     (''north-carolina-greensboro'', ''north-carolina-greensboro''),
     (''unc-greensboro'', ''north-carolina-greensboro''),
     (''north-carolina-state'', ''north-carolina-state'')]"

definition tc_16 :: "(string \<times> string) list" where
  "tc_16 =
    [(''n.c.-state'', ''north-carolina-state''),
     (''nc-state'', ''north-carolina-state''),
     (''north-carolina-wilmington'', ''north-carolina-wilmington''),
     (''unc-wilmington'', ''north-carolina-wilmington''),
     (''north-carolina'', ''north-carolina''),
     (''unc'', ''north-carolina''),
     (''north-dakota-state'', ''north-dakota-state''),
     (''north-dakota'', ''north-dakota''),
     (''north-florida'', ''north-florida''),
     (''north-texas'', ''north-texas''),
     (''northeastern'', ''northeastern''),
     (''northern-arizona'', ''northern-arizona''),
     (''northern-colorado'', ''northern-colorado''),
     (''northern-illinois'', ''northern-illinois''),
     (''northern-iowa'', ''northern-iowa''),
     (''northern-kentucky'', ''northern-kentucky'')]"

definition tc_17 :: "(string \<times> string) list" where
  "tc_17 =
    [(''northwestern-state'', ''northwestern-state''),
     (''northwestern'', ''northwestern''),
     (''notre-dame'', ''notre-dame''),
     (''oakland'', ''oakland''),
     (''ohio-state'', ''ohio-state''),
     (''ohio'', ''ohio''),
     (''oklahoma-state'', ''oklahoma-state''),
     (''oklahoma'', ''oklahoma''),
     (''old-dominion'', ''old-dominion''),
     (''oral-roberts'', ''oral-roberts''),
     (''oregon-state'', ''oregon-state''),
     (''oregon'', ''oregon''),
     (''pacific'', ''pacific''),
     (''penn-state'', ''penn-state''),
     (''pennsylvania'', ''pennsylvania''),
     (''penn'', ''pennsylvania'')]"

definition tc_18 :: "(string \<times> string) list" where
  "tc_18 =
    [(''pepperdine'', ''pepperdine''),
     (''pittsburgh'', ''pittsburgh''),
     (''pitt'', ''pittsburgh''),
     (''portland-state'', ''portland-state''),
     (''portland'', ''portland''),
     (''prairie-view'', ''prairie-view''),
     (''prairie-view-am'', ''prairie-view''),
     (''presbyterian'', ''presbyterian''),
     (''princeton'', ''princeton''),
     (''providence'', ''providence''),
     (''purdue'', ''purdue''),
     (''quinnipiac'', ''quinnipiac''),
     (''radford'', ''radford''),
     (''rhode-island'', ''rhode-island''),
     (''rice'', ''rice''),
     (''richmond'', ''richmond'')]"

definition tc_19 :: "(string \<times> string) list" where
  "tc_19 =
    [(''rider'', ''rider''),
     (''robert-morris'', ''robert-morris''),
     (''rutgers'', ''rutgers''),
     (''sacramento-state'', ''sacramento-state''),
     (''sacred-heart'', ''sacred-heart''),
     (''saint-francis-pa'', ''saint-francis-pa''),
     (''saint-josephs'', ''saint-josephs''),
     (''st-josephs'', ''saint-josephs''),
     (''saint-louis'', ''saint-louis''),
     (''saint-marys-ca'', ''saint-marys-ca''),
     (''saint-marys'', ''saint-marys-ca''),
     (''saint-peters'', ''saint-peters''),
     (''sam-houston-state'', ''sam-houston-state''),
     (''samford'', ''samford''),
     (''san-diego-state'', ''san-diego-state''),
     (''san-diego'', ''san-diego'')]"

definition tc_20 :: "(string \<times> string) list" where
  "tc_20 =
    [(''san-francisco'', ''san-francisco''),
     (''san-jose-state'', ''san-jose-state''),
     (''santa-clara'', ''santa-clara''),
     (''savannah-state'', ''savannah-state''),
     (''seattle'', ''seattle''),
     (''seton-hall'', ''seton-hall''),
     (''siena'', ''siena''),
     (''south-alabama'', ''south-alabama''),
     (''south-carolina-state'', ''south-carolina-state''),
     (''south-carolina-upstate'', ''south-carolina-upstate''),
     (''usc-upstate'', ''south-carolina-upstate''),
     (''south-carolina'', ''south-carolina''),
     (''south-dakota-state'', ''south-dakota-state''),
     (''south-dakota'', ''south-dakota''),
     (''south-florida'', ''south-florida''),
     (''southeast-missouri-state'', ''southeast-missouri-state'')]"

definition tc_21 :: "(string \<times> string) list" where
  "tc_21 =
    [(''southeastern-louisiana'', ''southeastern-louisiana''),
     (''southern-california'', ''southern-california''),
     (''usc'', ''southern-california''),
     (''siu-edwardsville'', ''southern-illinois-edwardsville''),
     (''southern-illinois-edwardsville'', ''southern-illinois-edwardsville''),
     (''southern-illinois'', ''southern-illinois''),
     (''smu'', ''southern-methodist''),
     (''southern-methodist'', ''southern-methodist''),
     (''southern-miss'', ''southern-mississippi''),
     (''southern-mississippi'', ''southern-mississippi''),
     (''southern-utah'', ''southern-utah''),
     (''southern'', ''southern''),
     (''saint-bonaventure'', ''st-bonaventure''),
     (''st-bonaventure'', ''st-bonaventure''),
     (''st-francis-ny'', ''st-francis-ny''),
     (''saint-francis-ny'', ''st-francis-ny'')]"

definition tc_22 :: "(string \<times> string) list" where
  "tc_22 =
    [(''saint-johns'', ''st-johns-ny''),
     (''st-johns-ny'', ''st-johns-ny''),
     (''saint-johns-ny'', ''st-johns-ny''),
     (''stanford'', ''stanford''),
     (''stephen-f-austin'', ''stephen-f-austin''),
     (''stetson'', ''stetson''),
     (''stony-brook'', ''stony-brook''),
     (''syracuse'', ''syracuse''),
     (''temple'', ''temple''),
     (''tennessee-martin'', ''tennessee-martin''),
     (''tennessee-state'', ''tennessee-state''),
     (''tennessee-tech'', ''tennessee-tech''),
     (''tennessee'', ''tennessee''),
     (''texas-am-corpus-christi'', ''texas-am-corpus-christi''),
     (''texas-am-corpus-chris'', ''texas-am-corpus-christi''),
     (''texas-am'', ''texas-am'')]"

definition tc_23 :: "(string \<times> string) list" where
  "tc_23 =
    [(''ut-arlington'', ''texas-arlington''),
     (''texas-arlington'', ''texas-arlington''),
     (''tcu'', ''texas-christian''),
     (''texas-christian'', ''texas-christian''),
     (''texas-el-paso'', ''texas-el-paso''),
     (''utep'', ''texas-el-paso''),
     (''texas-rio-grande-valley'', ''texas-pan-american''),
     (''ut-rio-grande-valley'', ''texas-pan-american''),
     (''texas-pan-american'', ''texas-pan-american''),
     (''texas-san-antonio'', ''texas-san-antonio''),
     (''utsa'', ''texas-san-antonio''),
     (''texas-southern'', ''texas-southern''),
     (''texas-state'', ''texas-state''),
     (''texas-tech'', ''texas-tech''),
     (''texas'', ''texas''),
     (''toledo'', ''toledo'')]"

definition tc_24 :: "(string \<times> string) list" where
  "tc_24 =
    [(''towson'', ''towson''),
     (''troy'', ''troy''),
     (''tulane'', ''tulane''),
     (''tulsa'', ''tulsa''),
     (''ucla'', ''ucla''),
     (''utah-state'', ''utah-state''),
     (''utah-valley'', ''utah-valley''),
     (''utah'', ''utah''),
     (''valparaiso'', ''valparaiso''),
     (''vanderbilt'', ''vanderbilt''),
     (''vermont'', ''vermont''),
     (''villanova'', ''villanova''),
     (''virginia-commonwealth'', ''virginia-commonwealth''),
     (''vcu'', ''virginia-commonwealth''),
     (''vmi'', ''virginia-military-institute''),
     (''virginia-military-institute'', ''virginia-military-institute'')]"

definition tc_25 :: "(string \<times> string) list" where
  "tc_25 =
    [(''virginia-tech'', ''virginia-tech''),
     (''virginia'', ''virginia''),
     (''wagner'', ''wagner''),
     (''wake-forest'', ''wake-forest''),
     (''washington-state'', ''washington-state''),
     (''washington'', ''washington''),
     (''weber-state'', ''weber-state''),
     (''west-virginia'', ''west-virginia''),
     (''western-carolina'', ''western-carolina''),
     (''western-illinois'', ''western-illinois''),
     (''western-kentucky'', ''western-kentucky''),
     (''western-michigan'', ''western-michigan''),
     (''wichita-state'', ''wichita-state''),
     (''william-mary'', ''william-mary''),
     (''winthrop'', ''winthrop''),
     (''wisconsin'', ''wisconsin'')]"

definition tc_26 :: "(string \<times> string) list" where
  "tc_26 =
    [(''wofford'', ''wofford''),
     (''wright-state'', ''wright-state''),
     (''wyoming'', ''wyoming''),
     (''xavier'', ''xavier''),
     (''yale'', ''yale''),
     (''youngstown-state'', ''youngstown-state'')]"

text \<open>Membership in the table, slice by slice.\<close>

definition has_self :: "string \<Rightarrow> bool" where
  "has_self v \<longleftrightarrow>
     (v, v) \<in> set tc_0 \<or>
     (v, v) \<in> set tc_1 \<or>
     (v, v) \<in> set tc_2 \<or>
     (v, v) \<in> set tc_3 \<or>
     (v, v) \<in> set tc_4 \<or>
     (v, v) \<in> set tc_5 \<or>
     (v, v) \<in> set tc_6 \<or>
     (v, v) \<in> set tc_7 \<or>
     (v, v) \<in> set tc_8 \<or>
     (v, v) \<in> set tc_9 \<or>
     (v, v) \<in> set tc_10 \<or>
     (v, v) \<in> set tc_11 \<or>
     (v, v) \<in> set tc_12 \<or>
     (v, v) \<in> set tc_13 \<or>
     (v, v) \<in> set tc_14 \<or>
     (v, v) \<in> set tc_15 \<or>
     (v, v) \<in> set tc_16 \<or>
     (v, v) \<in> set tc_17 \<or>
     (v, v) \<in> set tc_18 \<or>
     (v, v) \<in> set tc_19 \<or>
     (v, v) \<in> set tc_20 \<or>
     (v, v) \<in> set tc_21 \<or>
     (v, v) \<in> set tc_22 \<or>
     (v, v) \<in> set tc_23 \<or>
     (v, v) \<in> set tc_24 \<or>
     (v, v) \<in> set tc_25 \<or>
     (v, v) \<in> set tc_26"

definition is_value :: "string \<Rightarrow> bool" where
  "is_value k \<longleftrightarrow>
     k \<in> snd ` set tc_0 \<or>
     k \<in> snd ` set tc_1 \<or>
     k \<in> snd ` set tc_2 \<or>
     k \<in> snd ` set tc_3 \<or>
     k \<in> snd ` set tc_4 \<or>
     k \<in> snd ` set tc_5 \<or>
     k \<in> snd ` set tc_6 \<or>
     k \<in> snd ` set tc_7 \<or>
     k \<in> snd ` set tc_8 \<or>
     k \<in> snd ` set tc_9 \<or>
     k \<in> snd ` set tc_10 \<or>
     k \<in> snd ` set tc_11 \<or>
     k \<in> snd ` set tc_12 \<or>
     k \<in> snd ` set tc_13 \<or>
     k \<in> snd ` set tc_14 \<or>
     k \<in> snd ` set tc_15 \<or>
     k \<in> snd ` set tc_16 \<or>
     k \<in> snd ` set tc_17 \<or>
     k \<in> snd ` set tc_18 \<or>
     k \<in> snd ` set tc_19 \<or>
     k \<in> snd ` set tc_20 \<or>
     k \<in> snd ` set tc_21 \<or>
     k \<in> snd ` set tc_22 \<or>
     k \<in> snd ` set tc_23 \<or>
     k \<in> snd ` set tc_24 \<or>
     k \<in> snd ` set tc_25 \<or>
     k \<in> snd ` set tc_26"

definition is_key :: "string \<Rightarrow> bool" where
  "is_key k \<longleftrightarrow>
     k \<in> fst ` set tc_0 \<or>
     k \<in> fst ` set tc_1 \<or>
     k \<in> fst ` set tc_2 \<or>
     k \<in> fst ` set tc_3 \<or>
     k \<in> fst ` set tc_4 \<or>
     k \<in> fst ` set tc_5 \<or>
     k \<in> fst ` set tc_6 \<or>
     k \<in> fst ` set tc_7 \<or>
     k \<in> fst ` set tc_8 \<or>
     k \<in> fst ` set tc_9 \<or>
     k \<in> fst ` set tc_10 \<or>
     k \<in> fst ` set tc_11 \<or>
     k \<in> fst ` set tc_12 \<or>
     k \<in> fst ` set tc_13 \<or>
     k \<in> fst ` set tc_14 \<or>
     k \<in> fst ` set tc_15 \<or>
     k \<in> fst ` set tc_16 \<or>
     k \<in> fst ` set tc_17 \<or>
     k \<in> fst ` set tc_18 \<or>
     k \<in> fst ` set tc_19 \<or>
     k \<in> fst ` set tc_20 \<or>
     k \<in> fst ` set tc_21 \<or>
     k \<in> fst ` set tc_22 \<or>
     k \<in> fst ` set tc_23 \<or>
     k \<in> fst ` set tc_24 \<or>
     k \<in> fst ` set tc_25 \<or>
     k \<in> fst ` set tc_26"

text \<open>
  What is checked of a slice: every canonical identifier in it is its own lookup key with
  flag 0, and every alias (an entry whose key differs from its value) points to an
  identifier that is also entered under itself, while the alias is no identifier.
\<close>

definition slice_ok :: "(string \<times> string) list \<Rightarrow> bool" where
  "slice_ok C \<longleftrightarrow>
     list_all (\<lambda>(k, v). name_key v = Inr (v, 0)) C \<and>
     list_all (\<lambda>(k, v). has_self v \<and> \<not> is_value k) (filter (\<lambda>(k, v). k \<noteq> v) C)"

section \<open>Game records and frames (\<open>majerus/process.py\<close>)\<close>

text \<open>
  The data frame that \<open>process_game_logs\<close> receives holds one record per team and game. A
  record has the columns the function reads (\<open>Date\<close>, \<open>Team\<close>, \<open>Opponent\<close>, \<open>Location\<close>,
  \<open>TeamPoints\<close>, \<open>OpponentPoints\<close>, \<open>team_won\<close> and the statistics, by column name) and the
  four columns it assigns, which are absent (\<open>None\<close>) in a frame that was never processed.
  A calendar date is its day number, so \<open>pd.to_datetime\<close> with the fixed format is the
  identity on it and the comparison of timestamps is \<open><\<close>. The two point columns are
  \<open>int64\<close> columns, 64-bit words whose sum wraps around. A statistic is a float that is a
  real number or missing (\<open>None\<close> for \<open>NaN\<close>). Frames whose columns are missing or of another
  type are outside the model.
\<close>

type_synonym int64 = "64 word"

record game_record =
  Date :: int
  Team :: string
  Opponent :: string
  Location :: string
  TeamPoints :: int64
  OpponentPoints :: int64
  team_won :: int
  stats :: "string \<Rightarrow> real option"
  home_name :: "string option"
  team_at_home :: "int option"
  neutral_site :: "int option"
  total_score :: "int64 option"

type_synonym frame = "game_record list"

text \<open>One row of the returned frame: the entries of \<open>game\<close>, in the order of \<open>final_cols\<close>.\<close>

record agg_row =
  team_means :: "real option list"
  opp_means :: "real option list"
  team_name :: string
  opponent_name :: string
  row_team_at_home :: "int option"
  row_neutral_site :: "int option"
  row_team_won :: int
  row_total_score :: "int64 option"
  row_Date :: int
  row_Location :: string
  row_home_name :: "string option"

text \<open>\<open>__home_name\<close>, lines 22 to 43.\<close>

definition dunder_home_name :: "string \<Rightarrow> string \<Rightarrow> string \<Rightarrow> string" where
  "dunder_home_name location team opponent =
     (if location = ''H'' \<or> location = ''N'' then team else opponent)"

text \<open>
  Lines 84 to 92: the assignments to \<open>df["home_name"]\<close>, \<open>df["team_at_home"]\<close>,
  \<open>df["neutral_site"]\<close>, \<open>df["total_score"]\<close> and \<open>df["Date"]\<close>. They write into the
  caller's frame. The sum of line 91 is the sum of two \<open>int64\<close> columns: \<open>+\<close> on
  \<^typ>\<open>int64\<close> wraps around at 64 bits, as the column does.
\<close>

definition add_columns :: "frame \<Rightarrow> frame" where
  "add_columns df =
     map (\<lambda>x. x\<lparr>home_name := Some (dunder_home_name (Location x) (Team x) (Opponent x)),
               team_at_home := Some (if Location x = ''H'' then 1 else 0),
               neutral_site := Some (if Location x = ''N'' then 1 else 0),
               total_score := Some (TeamPoints x + OpponentPoints x)\<rparr>) df"

text \<open>Line 95.\<close>

definition featureCols :: "string list" where
  "featureCols =
     [''FGA'', ''FG%'', ''PF'', ''3P%'', ''FT%'', ''ORtg'', ''DRtg'', ''Pace'',
      ''FTr'', ''3PAr'', ''TS%'', ''TRB%'', ''AST%'', ''STL%'', ''BLK%'',
      ''eFG%'', ''TOV%'', ''ORB%'', ''FT/FGA'', ''DRB%'']"

text \<open>
  \<open>df.groupby("Team")\<close> with \<open>get_group\<close>: the records of one team in the order of the
  frame; \<open>get_group\<close> raises \<open>KeyError\<close> (here \<open>None\<close>) for a team without records.
\<close>

definition groupby_Team :: "frame \<Rightarrow> (string \<rightharpoonup> frame)" where
  "groupby_Team df name =
     (let g = filter (\<lambda>r. Team r = name) df in if g = [] then None else Some g)"

text \<open>
  Lines 153 and 154: \<open>tmp[feature_cols].astype(float).aggregate(np.nanmean, axis=0)\<close>, one
  value per feature column. \<open>np.nanmean\<close> is numpy's, computed in \<open>float64\<close>; it is a
  parameter here, and nothing below depends on what it computes.
\<close>

definition aggregate_nanmean ::
  "(real option list \<Rightarrow> real option) \<Rightarrow> string list \<Rightarrow> frame \<Rightarrow> real option list" where
  "aggregate_nanmean nanmean feature_cols tmp =
     map (\<lambda>col. nanmean (map (\<lambda>r. stats r col) tmp)) feature_cols"

text \<open>Lines 134 and 140: the records dated before a given day.\<close>

definition before :: "int \<Rightarrow> frame \<Rightarrow> frame" where
  "before d df = filter (\<lambda>r. Date r < d) df"

text \<open>
  \<open>iloc[ii]\<close>: a negative position counts from the end, a position outside the frame raises
  \<open>IndexError\<close>.
\<close>

definition iloc :: "'a list \<Rightarrow> int \<Rightarrow> error + 'a" where
  "iloc xs ii =
     (if 0 \<le> ii \<and> ii < int (length xs) then Inr (xs ! nat ii)
      else if ii < 0 \<and> - int (length xs) \<le> ii then Inr (xs ! nat (int (length xs) + ii))
      else Inl IndexError)"

text \<open>\<open>range(a, b)\<close>.\<close>

definition py_range :: "int \<Rightarrow> int \<Rightarrow> int list" where
  "py_range a b = [a .. b - 1]"

text \<open>
  Lines 129 to 183, the body of the loop, as a function of the names it reads:
  \<open>feature_cols\<close>, \<open>groups\<close>, \<open>team_df\<close>, \<open>parsed_team\<close> and the index \<open>ii\<close>. \<open>Inr None\<close>
  is \<open>continue\<close>, \<open>Inr (Some game)\<close> the list appended to \<open>games\<close>.
\<close>

definition game_at ::
  "(real option list \<Rightarrow> real option) \<Rightarrow> string list \<Rightarrow> (string \<rightharpoonup> frame) \<Rightarrow> frame \<Rightarrow> string
    \<Rightarrow> int \<Rightarrow> error + agg_row option" where
  "game_at nanmean feature_cols groups team_df parsed_team ii =
     (case iloc team_df ii of
        Inl e \<Rightarrow> Inl e
      | Inr cur \<Rightarrow>
          (let opp = Opponent cur;
               tmp = before (Date cur) team_df
           in case groups opp of
                None \<Rightarrow> Inr None
              | Some opp_df \<Rightarrow>
                  (let opp_tmp = before (Date cur) opp_df
                   in if opp_tmp = [] \<or> tmp = [] then Inr None
                      else Inr (Some
                             \<lparr>team_means = aggregate_nanmean nanmean feature_cols tmp,
                              opp_means = aggregate_nanmean nanmean feature_cols opp_tmp,
                              team_name = parsed_team,
                              opponent_name = opp,
                              row_team_at_home = team_at_home cur,
                              row_neutral_site = neutral_site cur,
                              row_team_won = team_won cur,
                              row_total_score = total_score cur,
                              row_Date = Date cur,
                              row_Location = Location cur,
                              row_home_name = home_name cur\<rparr>))))"

text \<open>
  Lines 127 to 183: the loop, appending to \<open>games\<close>, over a list of indices. In the source
  the indices are \<open>range(skip_first_n, len(team_tf))\<close>.
\<close>

fun game_loop ::
  "(real option list \<Rightarrow> real option) \<Rightarrow> string list \<Rightarrow> (string \<rightharpoonup> frame) \<Rightarrow> frame \<Rightarrow> string
    \<Rightarrow> int list \<Rightarrow> agg_row list \<Rightarrow> error + agg_row list" where
  "game_loop nanmean feature_cols groups team_df parsed_team [] games = Inr games"
| "game_loop nanmean feature_cols groups team_df parsed_team (ii # rest) games =
     (case game_at nanmean feature_cols groups team_df parsed_team ii of
        Inl e \<Rightarrow> Inl e
      | Inr None \<Rightarrow> game_loop nanmean feature_cols groups team_df parsed_team rest games
      | Inr (Some game) \<Rightarrow>
          game_loop nanmean feature_cols groups team_df parsed_team rest (games @ [game]))"

text \<open>
  \<open>process_game_logs\<close>. The result is the frame \<open>df\<close> after the call and what the call
  returns or raises: \<open>Inr None\<close> for \<open>return None\<close>, \<open>Inr (Some rows)\<close> for a returned
  frame. Line 95 binds \<open>featureCols\<close>; line 103 reads \<open>feature_cols\<close>, a name that no scope
  binds, so every call that passes the name check raises \<open>NameError\<close> there, after the
  assignments of lines 84 to 92 and before the group lookup of line 119 and the loop. (The
  frame of the team is likewise bound as \<open>teamDf\<close> at line 121 and read as \<open>team_tf\<close> at
  line 128 and as \<open>team_df\<close> in the loop.) The printing under \<open>verbose\<close> is left out.
\<close>

definition process_game_logs :: "frame \<Rightarrow> string \<Rightarrow> int \<Rightarrow> frame \<times> (error + agg_row list option)" where
  "process_game_logs df team skip_first_n =
     (case name_normalizer team False False False of
        Inl e \<Rightarrow> (df, Inl e)
      | Inr parsed_team \<Rightarrow> (add_columns df, Inl (NameError ''feature_cols'')))"

text \<open>
  Concrete inputs used below. \<open>mean_present\<close> is the mean of the values that are present,
  in exact arithmetic; it stands for \<open>np.nanmean\<close> in the examples only, where every value
  present is 1/2 and the mean in \<open>float64\<close> is 1/2 as well.
\<close>

definition mean_present :: "real option list \<Rightarrow> real option" where
  "mean_present xs =
     (let ys = List.map_filter (\<lambda>x. x) xs
      in if ys = [] then None else Some (sum_list ys / real (length ys)))"

definition game :: "int \<Rightarrow> string \<Rightarrow> string \<Rightarrow> string \<Rightarrow> int64 \<Rightarrow> int64 \<Rightarrow> game_record" where
  "game d t opp loc tp op =
     \<lparr>Date = d, Team = t, Opponent = opp, Location = loc, TeamPoints = tp,
      OpponentPoints = op, team_won = (if sint op < sint tp then 1 else 0),
      stats = (\<lambda>col. if col = ''FG%'' then Some (1 / 2) else None),
      home_name = None, team_at_home = None, neutral_site = None, total_score = None\<rparr>"

definition season_unsorted :: frame where
  "season_unsorted =
     [game 0 ''air-force'' ''army'' ''H'' 70 60,
      game 3 ''akron'' ''air-force'' ''H'' 80 70,
      game 1 ''akron'' ''air-force'' ''A'' 60 65,
      game 2 ''akron'' ''air-force'' ''N'' 71 70]"

definition season_sorted :: frame where
  "season_sorted =
     [game 0 ''air-force'' ''army'' ''H'' 70 60,
      game 1 ''akron'' ''air-force'' ''A'' 60 65,
      game 1 ''air-force'' ''akron'' ''H'' 65 60,
      game 2 ''akron'' ''air-force'' ''N'' 71 70,
      game 3 ''akron'' ''army'' ''H'' 80 70,
      game 4 ''akron'' ''air-force'' ''H'' 75 70]"

definition big_game :: game_record where
  "big_game = game 0 ''akron'' ''army'' ''H'' (2 ^ 62) (2 ^ 62)"

section \<open>The table and its slices\<close>

lemma team_names_slices:
  "team_names = tc_0 @ tc_1 @ tc_2 @ tc_3 @ tc_4 @ tc_5 @ tc_6 @ tc_7 @ tc_8 @ tc_9 @ tc_10 @ tc_11 @ tc_12 @ tc_13 @ tc_14 @ tc_15 @ tc_16 @ tc_17 @ tc_18 @ tc_19 @ tc_20 @ tc_21 @ tc_22 @ tc_23 @ tc_24 @ tc_25 @ tc_26"
  by (simp add: team_names_def tc_0_def tc_1_def tc_2_def tc_3_def tc_4_def tc_5_def tc_6_def tc_7_def tc_8_def tc_9_def tc_10_def tc_11_def tc_12_def tc_13_def tc_14_def tc_15_def tc_16_def tc_17_def tc_18_def tc_19_def tc_20_def tc_21_def tc_22_def tc_23_def tc_24_def tc_25_def tc_26_def)

lemma has_self_iff: "has_self v \<longleftrightarrow> (v, v) \<in> set team_names"
  by (simp add: has_self_def team_names_slices disj_ac)

lemma is_value_iff: "is_value k \<longleftrightarrow> k \<in> snd ` set team_names"
  by (simp add: is_value_def team_names_slices image_Un disj_ac)

lemma is_key_iff: "is_key k \<longleftrightarrow> k \<in> fst ` set team_names"
  by (simp add: is_key_def team_names_slices image_Un disj_ac)

lemma team_names_miss: "\<not> is_key k \<Longrightarrow> map_of team_names k = None"
  by (simp add: is_key_iff map_of_eq_None_iff)

lemma tc_0_ok: "slice_ok tc_0"
  by code_simp

lemma tc_1_ok: "slice_ok tc_1"
  by code_simp

lemma tc_2_ok: "slice_ok tc_2"
  by code_simp

lemma tc_3_ok: "slice_ok tc_3"
  by code_simp

lemma tc_4_ok: "slice_ok tc_4"
  by code_simp

lemma tc_5_ok: "slice_ok tc_5"
  by code_simp

lemma tc_6_ok: "slice_ok tc_6"
  by code_simp

lemma tc_7_ok: "slice_ok tc_7"
  by code_simp

lemma tc_8_ok: "slice_ok tc_8"
  by code_simp

lemma tc_9_ok: "slice_ok tc_9"
  by code_simp

lemma tc_10_ok: "slice_ok tc_10"
  by code_simp

lemma tc_11_ok: "slice_ok tc_11"
  by code_simp

lemma tc_12_ok: "slice_ok tc_12"
  by code_simp

lemma tc_13_ok: "slice_ok tc_13"
  by code_simp

lemma tc_14_ok: "slice_ok tc_14"
  by code_simp

lemma tc_15_ok: "slice_ok tc_15"
  by code_simp

lemma tc_16_ok: "slice_ok tc_16"
  by code_simp

lemma tc_17_ok: "slice_ok tc_17"
  by code_simp

lemma tc_18_ok: "slice_ok tc_18"
  by code_simp

lemma tc_19_ok: "slice_ok tc_19"
  by code_simp

lemma tc_20_ok: "slice_ok tc_20"
  by code_simp

lemma tc_21_ok: "slice_ok tc_21"
  by code_simp

lemma tc_22_ok: "slice_ok tc_22"
  by code_simp

lemma tc_23_ok: "slice_ok tc_23"
  by code_simp

lemma tc_24_ok: "slice_ok tc_24"
  by code_simp

lemma tc_25_ok: "slice_ok tc_25"
  by code_simp

lemma tc_26_ok: "slice_ok tc_26"
  by code_simp

lemma slice_okD:
  assumes "slice_ok C" and "(k, v) \<in> set C"
  shows "name_key v = Inr (v, 0)"
    and "k \<noteq> v \<Longrightarrow> (v, v) \<in> set team_names \<and> k \<notin> snd ` set team_names"
  using assms
  by (auto simp: slice_ok_def list_all_iff has_self_iff is_value_iff)

lemma team_names_entry:
  assumes "(k, v) \<in> set team_names"
  shows "name_key v = Inr (v, 0)"
    and "k \<noteq> v \<Longrightarrow> (v, v) \<in> set team_names \<and> k \<notin> snd ` set team_names"
proof -
  from assms consider "(k, v) \<in> set tc_0" | "(k, v) \<in> set tc_1" | "(k, v) \<in> set tc_2" | "(k, v) \<in> set tc_3" | "(k, v) \<in> set tc_4" | "(k, v) \<in> set tc_5" | "(k, v) \<in> set tc_6" | "(k, v) \<in> set tc_7" | "(k, v) \<in> set tc_8" | "(k, v) \<in> set tc_9" | "(k, v) \<in> set tc_10" | "(k, v) \<in> set tc_11" | "(k, v) \<in> set tc_12" | "(k, v) \<in> set tc_13" | "(k, v) \<in> set tc_14" | "(k, v) \<in> set tc_15" | "(k, v) \<in> set tc_16" | "(k, v) \<in> set tc_17" | "(k, v) \<in> set tc_18" | "(k, v) \<in> set tc_19" | "(k, v) \<in> set tc_20" | "(k, v) \<in> set tc_21" | "(k, v) \<in> set tc_22" | "(k, v) \<in> set tc_23" | "(k, v) \<in> set tc_24" | "(k, v) \<in> set tc_25" | "(k, v) \<in> set tc_26"
    by (auto simp: team_names_slices)
  then have "name_key v = Inr (v, 0) \<and>
      (k \<noteq> v \<longrightarrow> (v, v) \<in> set team_names \<and> k \<notin> snd ` set team_names)"
  proof cases
    case 1
    then show ?thesis using slice_okD [OF tc_0_ok] by blast
  next
    case 2
    then show ?thesis using slice_okD [OF tc_1_ok] by blast
  next
    case 3
    then show ?thesis using slice_okD [OF tc_2_ok] by blast
  next
    case 4
    then show ?thesis using slice_okD [OF tc_3_ok] by blast
  next
    case 5
    then show ?thesis using slice_okD [OF tc_4_ok] by blast
  next
    case 6
    then show ?thesis using slice_okD [OF tc_5_ok] by blast
  next
    case 7
    then show ?thesis using slice_okD [OF tc_6_ok] by blast
  next
    case 8
    then show ?thesis using slice_okD [OF tc_7_ok] by blast
  next
    case 9
    then show ?thesis using slice_okD [OF tc_8_ok] by blast
  next
    case 10
    then show ?thesis using slice_okD [OF tc_9_ok] by blast
  next
    case 11
    then show ?thesis using slice_okD [OF tc_10_ok] by blast
  next
    case 12
    then show ?thesis using slice_okD [OF tc_11_ok] by blast
  next
    case 13
    then show ?thesis using slice_okD [OF tc_12_ok] by blast
  next
    case 14
    then show ?thesis using slice_okD [OF tc_13_ok] by blast
  next
    case 15
    then show ?thesis using slice_okD [OF tc_14_ok] by blast
  next
    case 16
    then show ?thesis using slice_okD [OF tc_15_ok] by blast
  next
    case 17
    then show ?thesis using slice_okD [OF tc_16_ok] by blast
  next
    case 18
    then show ?thesis using slice_okD [OF tc_17_ok] by blast
  next
    case 19
    then show ?thesis using slice_okD [OF tc_18_ok] by blast
  next
    case 20
    then show ?thesis using slice_okD [OF tc_19_ok] by blast
  next
    case 21
    then show ?thesis using slice_okD [OF tc_20_ok] by blast
  next
    case 22
    then show ?thesis using slice_okD [OF tc_21_ok] by blast
  next
    case 23
    then show ?thesis using slice_okD [OF tc_22_ok] by blast
  next
    case 24
    then show ?thesis using slice_okD [OF tc_23_ok] by blast
  next
    case 25
    then show ?thesis using slice_okD [OF tc_24_ok] by blast
  next
    case 26
    then show ?thesis using slice_okD [OF tc_25_ok] by blast
  next
    case 27
    then show ?thesis using slice_okD [OF tc_26_ok] by blast
  qed
  then show "name_key v = Inr (v, 0)"
    and "k \<noteq> v \<Longrightarrow> (v, v) \<in> set team_names \<and> k \<notin> snd ` set team_names"
    by blast+
qed

lemma team_names_lookup_self:
  assumes "v \<in> snd ` set team_names"
  shows "map_of team_names v = Some v"
proof -
  from assms obtain k where kv: "(k, v) \<in> set team_names" by auto
  have self: "(v, v) \<in> set team_names"
    using kv team_names_entry(2) [OF kv] by (cases "k = v") auto
  then have "v \<in> fst ` set team_names" by force
  then obtain w where w: "map_of team_names v = Some w"
    by (cases "map_of team_names v") (auto simp: map_of_eq_None_iff)
  then have vw: "(v, w) \<in> set team_names" by (rule map_of_SomeD)
  have "w = v"
  proof (rule ccontr)
    assume "w \<noteq> v"
    then have "v \<noteq> w" by simp
    from team_names_entry(2) [OF vw this] have "v \<notin> snd ` set team_names" by simp
    with assms show False by simp
  qed
  with w show ?thesis by simp
qed

section \<open>Properties of the string operations\<close>

lemma contains_set: "contains sub s \<Longrightarrow> set sub \<subseteq> set s"
proof (induction s)
  case Nil
  then show ?case by simp
next
  case (Cons c cs)
  show ?case
  proof (cases "prefix sub (c # cs)")
    case True
    then show ?thesis by (rule set_mono_prefix)
  next
    case False
    with Cons show ?thesis by auto
  qed
qed

lemma split_on_nonempty: "split_on p s \<noteq> []"
  by (induction s) (auto split: list.splits)

lemma split_on_has_word:
  "\<exists>c\<in>set s. \<not> p c \<Longrightarrow> filter (\<lambda>w. w \<noteq> []) (split_on p s) \<noteq> []"
  by (induction s) (auto split: list.splits)

lemma contains_st_split_ws:
  assumes "contains ''st.'' p"
  shows "split_ws p \<noteq> []"
proof -
  from contains_set [OF assms] have "CHR ''s'' \<in> set p" by simp
  moreover have "\<not> isspace CHR ''s''" by (simp add: isspace_def whitespace_def)
  ultimately show ?thesis unfolding split_ws_def by (intro split_on_has_word) blast
qed

lemma st_step_total: "\<exists>q. st_step p = Inr q"
  using contains_st_split_ws [of p]
  by (auto simp: st_step_def split: list.splits)

lemma name_key_total: "\<exists>key b. name_key name = Inr (key, b)"
proof -
  obtain q where "st_step (strip (lower name)) = Inr q" using st_step_total by blast
  then show ?thesis by (cases "key_of_tokens (tokens_of q)") (auto simp: name_key_def)
qed

section \<open>Lookup misses and the tournament flag\<close>

lemma contains_self_append: "contains sub (sub @ ys)"
proof (cases "sub @ ys")
  case Nil
  then show ?thesis by simp
next
  case (Cons c cs)
  have "prefix sub (sub @ ys)" by simp
  with Cons show ?thesis by simp
qed

lemma contains_append: "contains sub (xs @ sub @ ys)"
  by (induction xs) (auto simp: contains_self_append)

lemma team_err_msg_carries_key: "contains key (team_err_msg key)"
  unfolding team_err_msg_def using contains_append [of key "''Incorrect team name: ''"] by simp

lemma name_normalizer_miss:
  assumes "name_key name = Inr (key, b)" and "map_of team_names key = None"
  shows "name_normalizer name False False True = Inr (RName NaN)"
    and "name_normalizer name False True True = Inr (RBoth NaN b)"
    and "name_normalizer name made_tourney return_both False = Inl (KeyError (team_err_msg key))"
  using assms by (simp_all add: name_normalizer_def select_result_def)

lemma conf_name_normalizer_miss:
  assumes "map_of conf_name (conf_key name) = None"
  shows "conf_name_normalizer name True = Inr NaN"
    and "conf_name_normalizer name False = Inl (KeyError conf_err_msg)"
  using assms by (simp_all add: conf_name_normalizer_def)

lemma flag_mode_result:
  assumes "name_key name = Inr (key, b)"
  shows "name_normalizer name True False True = Inr (RFlag b)"
  using assms by (simp add: name_normalizer_def select_result_def split: option.splits)

lemma key_of_tokens_flag: "snd (key_of_tokens toks) = 0 \<or> snd (key_of_tokens toks) = 1"
  by (simp add: key_of_tokens_def)

lemma name_key_flag:
  assumes "name_key name = Inr (key, b)"
  shows "b = 0 \<or> b = 1"
proof -
  obtain q where q: "st_step (strip (lower name)) = Inr q" using st_step_total by blast
  with assms have "b = snd (key_of_tokens (tokens_of q))" by (simp add: name_key_def)
  then show ?thesis using key_of_tokens_flag by simp
qed

section \<open>Claims about \<open>name_normalizer\<close> and \<open>conf_name_normalizer\<close>\<close>

text \<open>
  Claim C4. Every canonical identifier, that is every value of \<open>__team_names\<close>, is
  returned unchanged by \<open>name_normalizer\<close>: its lookup key is the identifier itself with
  flag 0, and the table maps that key to the identifier.
\<close>

theorem name_normalizer_idempotent:
  assumes "v \<in> snd ` set team_names"
  shows "name_normalizer v False False ignore_errors = Inr (RName (Canon v))"
proof -
  from assms obtain k where "(k, v) \<in> set team_names" by auto
  then have "name_key v = Inr (v, 0)" by (rule team_names_entry(1))
  moreover have "map_of team_names v = Some v" using assms by (rule team_names_lookup_self)
  ultimately show ?thesis by (simp add: name_normalizer_def select_result_def)
qed

text \<open>The theorem of C4 at the first identifier of the table.\<close>

theorem name_normalizer_idempotent_witness:
  "''abilene-christian'' \<in> snd ` set team_names \<and>
   name_normalizer ''abilene-christian'' False False False = Inr (RName (Canon ''abilene-christian''))"
proof -
  have "is_value ''abilene-christian''" by code_simp
  then have m: "''abilene-christian'' \<in> snd ` set team_names" by (simp only: is_value_iff)
  from name_normalizer_idempotent [OF m, of False] m show ?thesis by blast
qed

text \<open>
  Claim C5 fails as stated. In \<open>st. louis st. charles\<close> the third token is neither the
  first nor the last one, and it is expanded; in \<open>st. john st.\<close> the last token becomes
  \<open>saint\<close>, not \<open>state\<close>; in \<open>east. tennessee st.\<close> the occurrence inside the token
  \<open>east.\<close> is rewritten too.
\<close>

theorem st_step_counterexample:
  "split_ws ''st. louis st. charles'' = [''st.'', ''louis'', ''st.'', ''charles''] \<and>
   st_step ''st. louis st. charles'' = Inr ''saint louis saint charles'' \<and>
   split_ws ''st. john st.'' = [''st.'', ''john'', ''st.''] \<and>
   st_step ''st. john st.'' = Inr ''saint john saint'' \<and>
   split_ws ''east. tennessee st.'' = [''east.'', ''tennessee'', ''st.''] \<and>
   st_step ''east. tennessee st.'' = Inr ''eastate tennessee state''"
  by code_simp

text \<open>
  Claim C5, amended. The step never fails. When the string contains \<open>st.\<close> and its first
  whitespace-delimited token is \<open>st.\<close>, every occurrence of the substring \<open>st.\<close> is
  replaced by \<open>saint\<close>; otherwise, when its last token is \<open>st.\<close>, every occurrence is
  replaced by \<open>state\<close>; otherwise the string is left as it is.
\<close>

theorem st_step_replaces_all:
  "st_step p =
     Inr (if \<not> contains ''st.'' p then p
          else if hd (split_ws p) = ''st.'' then replace ''st.'' ''saint'' p
          else if last (split_ws p) = ''st.'' then replace ''st.'' ''state'' p
          else p)"
  using contains_st_split_ws [of p]
  by (auto simp: st_step_def split: list.splits)

text \<open>The theorem of C5 at \<open>st. louis st. charles\<close>.\<close>

theorem st_step_replaces_all_witness:
  "st_step ''st. louis st. charles'' = Inr ''saint louis saint charles''"
proof -
  have c: "contains ''st.'' ''st. louis st. charles''" by code_simp
  have h: "hd (split_ws ''st. louis st. charles'') = ''st.''" by code_simp
  have r: "replace ''st.'' ''saint'' ''st. louis st. charles'' = ''saint louis saint charles''"
    by code_simp
  from st_step_replaces_all [of "''st. louis st. charles''"] c h r show ?thesis
    by simp
qed

text \<open>
  Claim C6 fails as stated. The tokens of \<open>NCAA Duke\<close> do not end with \<open>ncaa\<close>, yet the
  flag is 1 and the final token is dropped from the key.
\<close>

theorem ncaa_counterexample:
  "st_step (strip (lower ''NCAA Duke'')) = Inr ''ncaa duke'' \<and>
   tokens_of ''ncaa duke'' = [''ncaa'', ''duke''] \<and>
   last [''ncaa'', ''duke''] \<noteq> ''ncaa'' \<and>
   key_of_tokens [''ncaa'', ''duke''] = (''ncaa'', 1) \<and>
   name_key ''NCAA Duke'' = Inr (''ncaa'', 1)"
  by code_simp

text \<open>
  Claim C6, amended. The flag is 1 exactly when the token \<open>ncaa\<close> occurs anywhere among
  the preprocessed tokens, and 0 otherwise. When the tokens end with \<open>ncaa\<close> that token is
  dropped from the key; when \<open>ncaa\<close> does not occur all tokens are kept.
\<close>

theorem ncaa_flag_by_membership:
  assumes "st_step (strip (lower name)) = Inr p" and "toks = tokens_of p"
  shows "\<exists>key b. name_key name = Inr (key, b) \<and>
           name_normalizer name True False True = Inr (RFlag b) \<and>
           (b = 1 \<longleftrightarrow> ''ncaa'' \<in> set toks) \<and>
           (b = 0 \<longleftrightarrow> ''ncaa'' \<notin> set toks) \<and>
           (toks \<noteq> [] \<and> last toks = ''ncaa'' \<longrightarrow> key = join ''-'' (butlast toks)) \<and>
           (''ncaa'' \<notin> set toks \<longrightarrow> key = join ''-'' toks)"
proof -
  obtain key b where kb: "key_of_tokens toks = (key, b)" by (cases "key_of_tokens toks")
  with assms have nk: "name_key name = Inr (key, b)" by (simp add: name_key_def)
  have l: "toks \<noteq> [] \<and> last toks = ''ncaa'' \<longrightarrow> ''ncaa'' \<in> set toks"
    by (metis last_in_set)
  from kb l have "(b = 1 \<longleftrightarrow> ''ncaa'' \<in> set toks) \<and>
           (b = 0 \<longleftrightarrow> ''ncaa'' \<notin> set toks) \<and>
           (toks \<noteq> [] \<and> last toks = ''ncaa'' \<longrightarrow> key = join ''-'' (butlast toks)) \<and>
           (''ncaa'' \<notin> set toks \<longrightarrow> key = join ''-'' toks)"
    by (auto simp: key_of_tokens_def split: if_splits)
  with nk flag_mode_result [OF nk] show ?thesis by blast
qed

text \<open>The theorem of C6 at \<open>Akron NCAA\<close>.\<close>

theorem ncaa_flag_by_membership_witness:
  "st_step (strip (lower ''Akron NCAA'')) = Inr ''akron ncaa'' \<and>
   name_key ''Akron NCAA'' = Inr (''akron'', 1) \<and>
   name_normalizer ''Akron NCAA'' True False True = Inr (RFlag 1)"
proof -
  have s: "st_step (strip (lower ''Akron NCAA'')) = Inr ''akron ncaa''" by code_simp
  have t: "[''akron'', ''ncaa''] = tokens_of ''akron ncaa''" by code_simp
  have j: "join ''-'' (butlast [''akron'', ''ncaa'']) = ''akron''" by code_simp
  from ncaa_flag_by_membership [OF s t] j s show ?thesis by auto
qed

text \<open>
  Claim C7 at \<open>conf_name_normalizer("Fictional Conference", ignore_errors=False)\<close>: the
  key \<open>fictional conference\<close> is absent from \<open>__conf_name\<close>, the call raises \<open>KeyError\<close>,
  and the message holds the text \<open>{parsed_conf}\<close> instead of the key. For
  \<open>name_normalizer\<close> the message does carry the key (\<open>name_normalizer_miss\<close> with
  \<open>team_err_msg_carries_key\<close>), and both functions return \<open>np.nan\<close> when errors are
  ignored (\<open>name_normalizer_miss\<close>, \<open>conf_name_normalizer_miss\<close>).
\<close>

theorem conf_name_normalizer_message_lacks_key:
  "conf_key ''Fictional Conference'' = ''fictional conference'' \<and>
   map_of conf_name ''fictional conference'' = None \<and>
   conf_name_normalizer ''Fictional Conference'' False = Inl (KeyError conf_err_msg) \<and>
   \<not> contains ''fictional conference'' conf_err_msg \<and>
   contains ''{parsed_conf}'' conf_err_msg"
  by code_simp

text \<open>
  Claim C10. For a name whose lookup key is absent from the table,
  \<open>name_normalizer(name, made_tourney=True, return_both=False, ignore_errors=True)\<close>
  returns the flag, 0 or 1, and not \<open>np.nan\<close>; the result is the one of any known name
  with the same flag.
\<close>

theorem flag_mode_hides_unknown:
  assumes "name_key name = Inr (key, b)" and "map_of team_names key = None"
  shows "name_normalizer name True False True = Inr (RFlag b) \<and>
         (b = 0 \<or> b = 1) \<and>
         name_normalizer name True False True \<noteq> Inr (RName NaN) \<and>
         (\<forall>name' key' v. name_key name' = Inr (key', b) \<and> map_of team_names key' = Some v \<longrightarrow>
            name_normalizer name' True False True = name_normalizer name True False True)"
  using flag_mode_result [OF assms(1)] name_key_flag [OF assms(1)]
  by (auto simp: flag_mode_result)

text \<open>The theorem of C10 at \<open>Fictional University\<close>, compared with \<open>Akron\<close>.\<close>

theorem flag_mode_hides_unknown_witness:
  "name_key ''Fictional University'' = Inr (''fictional-university'', 0) \<and>
   map_of team_names ''fictional-university'' = None \<and>
   name_key ''Akron'' = Inr (''akron'', 0) \<and>
   map_of team_names ''akron'' = Some ''akron'' \<and>
   name_normalizer ''Fictional University'' True False True = Inr (RFlag 0) \<and>
   name_normalizer ''Akron'' True False True = name_normalizer ''Fictional University'' True False True"
proof -
  have k: "name_key ''Fictional University'' = Inr (''fictional-university'', 0)" by code_simp
  have "\<not> is_key ''fictional-university''" by code_simp
  then have m: "map_of team_names ''fictional-university'' = None" by (rule team_names_miss)
  have k': "name_key ''Akron'' = Inr (''akron'', 0)" by code_simp
  have m': "map_of team_names ''akron'' = Some ''akron''" by code_simp
  from flag_mode_hides_unknown [OF k m] k m k' m' show ?thesis by blast
qed

section \<open>The loop of \<open>process_game_logs\<close>\<close>

lemma iloc_Inr: "iloc xs ii = Inr x \<Longrightarrow> x \<in> set xs"
  by (auto simp: iloc_def split: if_splits)

lemma iloc_in_range:
  "- int (length xs) \<le> ii \<Longrightarrow> ii < int (length xs) \<Longrightarrow> \<exists>x. iloc xs ii = Inr x"
  by (auto simp: iloc_def)

lemma groupby_Team_Some:
  "groupby_Team df name = Some g \<longleftrightarrow> g = filter (\<lambda>r. Team r = name) df \<and> g \<noteq> []"
  by (auto simp: groupby_Team_def Let_def)

lemma groupby_Team_None:
  "groupby_Team df name = None \<longleftrightarrow> (\<forall>r\<in>set df. Team r \<noteq> name)"
  by (auto simp: groupby_Team_def Let_def filter_empty_conv)



lemma game_at_None:
  "game_at nanmean fc g t p ii = Inr None \<longleftrightarrow>
     (\<exists>cur. iloc t ii = Inr cur \<and>
        (case g (Opponent cur) of
           None \<Rightarrow> True
         | Some opp_df \<Rightarrow> before (Date cur) opp_df = [] \<or> before (Date cur) t = []))"
  by (auto simp: game_at_def Let_def split: sum.splits option.splits)

lemma game_at_raises:
  "game_at nanmean fc g t p ii = Inl e \<longleftrightarrow> iloc t ii = Inl e"
  by (auto simp: game_at_def Let_def split: sum.splits option.splits)

lemma map_filter_length:
  "length (List.map_filter f xs) + length (filter (\<lambda>x. f x = None) xs) = length xs"
  by (induction xs) (auto simp: map_filter_simps split: option.splits)


lemma game_loop_Inr:
  assumes "game_loop nanmean fc g t p is games = Inr rows"
  shows "(\<forall>ii\<in>set is. \<exists>r. game_at nanmean fc g t p ii = Inr r) \<and>
         rows = games @ List.map_filter
                  (\<lambda>ii. case game_at nanmean fc g t p ii of Inl e \<Rightarrow> None | Inr r \<Rightarrow> r) is"
  using assms
proof (induction "is" arbitrary: games)
  case Nil
  then show ?case by (simp add: map_filter_simps)
next
  case (Cons ii rest)
  show ?case
  proof (cases "game_at nanmean fc g t p ii")
    case (Inl e)
    with Cons.prems show ?thesis by simp
  next
    case (Inr r)
    show ?thesis
    proof (cases r)
      case None
      with Inr Cons.prems have "game_loop nanmean fc g t p rest games = Inr rows" by simp
      from Cons.IH [OF this] Inr None show ?thesis by (simp add: map_filter_simps)
    next
      case (Some row)
      with Inr Cons.prems have "game_loop nanmean fc g t p rest (games @ [row]) = Inr rows"
        by simp
      from Cons.IH [OF this] Inr Some show ?thesis by (simp add: map_filter_simps)
    qed
  qed
qed


lemma game_loop_returns:
  assumes "\<forall>ii\<in>set is. - int (length t) \<le> ii \<and> ii < int (length t)"
  shows "\<exists>rows. game_loop nanmean fc g t p is games = Inr rows"
  using assms
proof (induction "is" arbitrary: games)
  case Nil
  then show ?case by simp
next
  case (Cons ii rest)
  then obtain cur where "iloc t ii = Inr cur" using iloc_in_range [of t ii] by auto
  then obtain r where "game_at nanmean fc g t p ii = Inr r"
    by (cases "game_at nanmean fc g t p ii") (auto simp: game_at_raises)
  with Cons show ?case by (cases r) auto
qed

lemma rows_count:
  assumes "game_loop nanmean fc g t p is [] = Inr rows"
  shows "length rows + length (filter (\<lambda>ii. game_at nanmean fc g t p ii = Inr None) is) = length is"
proof -
  let ?f = "\<lambda>ii. case game_at nanmean fc g t p ii of Inl e \<Rightarrow> None | Inr r \<Rightarrow> r"
  from game_loop_Inr [OF assms] have
    ok: "\<forall>ii\<in>set is. \<exists>r. game_at nanmean fc g t p ii = Inr r" and
    rows: "rows = List.map_filter ?f is"
    by simp_all
  have "filter (\<lambda>ii. game_at nanmean fc g t p ii = Inr None) is = filter (\<lambda>ii. ?f ii = None) is"
    using ok by (intro filter_cong) (auto split: sum.splits)
  with map_filter_length [of ?f "is"] rows show ?thesis by simp
qed

lemma rows_count_range:
  assumes "0 \<le> skip"
  shows "\<exists>rows. game_loop nanmean fc g t p (py_range skip (int (length t))) [] = Inr rows \<and>
           int (length rows) +
           int (length (filter (\<lambda>ii. game_at nanmean fc g t p ii = Inr None)
                          (py_range skip (int (length t))))) =
           max 0 (int (length t) - skip)"
proof -
  have "\<forall>ii\<in>set (py_range skip (int (length t))). - int (length t) \<le> ii \<and> ii < int (length t)"
    using assms by (auto simp: py_range_def)
  from game_loop_returns [OF this] obtain rows where
    r: "game_loop nanmean fc g t p (py_range skip (int (length t))) [] = Inr rows"
    by blast
  have "int (length (py_range skip (int (length t)))) = max 0 (int (length t) - skip)"
    by (simp add: py_range_def)
  with rows_count [OF r] r show ?thesis by (intro exI [of _ rows]) linarith
qed

lemma later_records_do_not_matter:
  assumes "iloc t ii = Inr cur" and "iloc t' ii' = Inr cur"
    and "before (Date cur) t' = before (Date cur) t"
    and "(case g' (Opponent cur) of None \<Rightarrow> [] | Some o' \<Rightarrow> before (Date cur) o') =
         (case g (Opponent cur) of None \<Rightarrow> [] | Some o' \<Rightarrow> before (Date cur) o')"
  shows "game_at nanmean fc g' t' p ii' = game_at nanmean fc g t p ii"
  using assms by (auto simp: game_at_def Let_def split: option.splits)

lemma groupby_before:
  "(case groupby_Team df name of None \<Rightarrow> [] | Some o' \<Rightarrow> before d o') =
     filter (\<lambda>r. Team r = name) (before d df)"
proof (cases "filter (\<lambda>r. Team r = name) df = []")
  case True
  then have "filter (\<lambda>r. Date r < d) (filter (\<lambda>r. Team r = name) df) = []" by simp
  then have "filter (\<lambda>r. Team r = name) (filter (\<lambda>r. Date r < d) df) = []"
    by (simp add: conj_commute)
  with True show ?thesis by (simp add: groupby_Team_def before_def del: filter_filter)
next
  case False
  then show ?thesis by (simp add: groupby_Team_def before_def conj_commute)
qed

section \<open>\<open>process_game_logs\<close> as a whole\<close>

lemma name_check_result:
  assumes "name_normalizer team False False False = Inr r"
  shows "\<exists>v. r = RName (Canon v) \<and> v \<in> snd ` set team_names"
proof -
  obtain key b where kb: "name_key team = Inr (key, b)" using name_key_total by blast
  with assms obtain v where v: "map_of team_names key = Some v" and r: "r = RName (Canon v)"
    by (auto simp: name_normalizer_def select_result_def split: option.splits)
  from v have "(key, v) \<in> set team_names" by (rule map_of_SomeD)
  then have "v \<in> snd ` set team_names" by force
  with r show ?thesis by blast
qed


lemma process_game_logs_KeyError:
  assumes "name_key team = Inr (key, b)" and "map_of team_names key = None"
  shows "process_game_logs df team skip = (df, Inl (KeyError (team_err_msg key)))"
  using name_normalizer_miss(3) [OF assms, of False False]
  by (simp add: process_game_logs_def)

lemma process_game_logs_never_returns: "snd (process_game_logs df team skip) \<noteq> Inr x"
  by (simp add: process_game_logs_def split: sum.splits)



lemma total_score_wraps:
  "map (map_option sint \<circ> total_score) (add_columns [big_game]) = [Some (- (2 ^ 63))]"
  by code_simp

section \<open>Claims about \<open>process_game_logs\<close>\<close>



text \<open>
  Claim C2 at a season with four games of \<open>akron\<close> and \<open>skip_first_n = 1\<close>: the function
  raises \<open>NameError\<close> at line 103 and returns no row, where the claim counts two (four
  games, one in the warm-up, one skipped for an opponent without a log). The loop alone,
  given the frame and the log of \<open>akron\<close> and the indices \<open>range(1, 4)\<close>, yields those two
  rows; lemmas \<open>rows_count\<close> and \<open>rows_count_range\<close> give the count in general.
\<close>

theorem process_game_logs_raises_NameError:
  "length (filter (\<lambda>r. Team r = ''akron'') season_sorted) = 4 \<and>
   snd (process_game_logs season_sorted ''Akron'' 1) = Inl (NameError ''feature_cols'') \<and>
   map_sum id (map row_Date)
     (game_loop mean_present featureCols (groupby_Team (add_columns season_sorted))
        (filter (\<lambda>r. Team r = ''akron'') (add_columns season_sorted)) ''akron''
        (py_range 1 4) [])
     = Inr [2, 4]"
  by code_simp

text \<open>
  Claim C3 at a season whose records of \<open>akron\<close> are given for the days 3, 1, 2: the
  function raises \<open>NameError\<close> at line 103, before the partition of line 119, and returns
  no rows in any order. The partition, applied to that frame, keeps the order 3, 1, 2.
\<close>

theorem process_game_logs_raises_on_unsorted:
  "name_normalizer ''Akron'' False False False = Inr (RName (Canon ''akron'')) \<and>
   map Date (filter (\<lambda>r. Team r = ''akron'') season_unsorted) = [3, 1, 2] \<and>
   snd (process_game_logs season_unsorted ''Akron'' 0) = Inl (NameError ''feature_cols'') \<and>
   map_option (map Date) (groupby_Team (fst (process_game_logs season_unsorted ''Akron'' 0)) ''akron'')
     = Some [3, 1, 2]"
  by code_simp




text \<open>
  Claim C9 at a season without records of \<open>alabama\<close>, a canonical identifier: the function
  raises \<open>NameError\<close> at line 103, before the group lookup of lines 118 to 124, where the
  claim and the docstring say that nothing is raised.
\<close>

theorem process_game_logs_raises_without_team:
  "name_normalizer ''Alabama'' False False False = Inr (RName (Canon ''alabama'')) \<and>
   filter (\<lambda>r. Team r = ''alabama'') season_sorted = [] \<and>
   groupby_Team (fst (process_game_logs season_sorted ''Alabama'' 0)) ''alabama'' = None \<and>
   snd (process_game_logs season_sorted ''Alabama'' 0) = Inl (NameError ''feature_cols'')"
  by code_simp

end
